theory Spec2Isabelle
  imports Complex_Main
begin

section \<open>Python values held by the configuration\<close>

text \<open>
  The raw parameters of \<open>ConfigManager\<close> are Python objects. The model keeps the shapes the
  getters distinguish: \<open>None\<close>, booleans, integers, floats, strings, lists, dictionaries with
  string keys (what \<open>json.loads\<close> produces) and \<open>UriSpec\<close> triples. A float is represented by
  its exact value; NaN, the infinities and the sign of zero are outside the model.
\<close>

datatype pyval =
    VNone
  | VBool bool
  | VInt int
  | VFloat real
  | VStr string
  | VList "pyval list"
  | VDict "(string \<times> pyval) list"
  | VUri string string string

text \<open>The classes passed as \<open>target_type\<close>.\<close>

datatype pytype = TInt | TFloat | TBool | TStr | TMapping | TUriSpec | TList

text \<open>\<open>isinstance(value, target_type)\<close>; \<open>bool\<close> is a subclass of \<open>int\<close> in Python.\<close>

fun isinstance :: "pyval \<Rightarrow> pytype \<Rightarrow> bool" where
  "isinstance (VInt _) TInt = True"
| "isinstance (VBool _) TInt = True"
| "isinstance (VBool _) TBool = True"
| "isinstance (VFloat _) TFloat = True"
| "isinstance (VStr _) TStr = True"
| "isinstance (VDict _) TMapping = True"
| "isinstance (VUri _ _ _) TUriSpec = True"
| "isinstance (VList _) TList = True"
| "isinstance _ _ = False"

text \<open>Truth value of an object, as \<open>not value\<close> and \<open>a or b\<close> test it.\<close>

fun truthy :: "pyval \<Rightarrow> bool" where
  "truthy VNone = False"
| "truthy (VBool b) = b"
| "truthy (VInt i) = (i \<noteq> 0)"
| "truthy (VFloat r) = (r \<noteq> 0)"
| "truthy (VStr s) = (s \<noteq> [])"
| "truthy (VList xs) = (xs \<noteq> [])"
| "truthy (VDict kvs) = (kvs \<noteq> [])"
| "truthy (VUri _ _ _) = True"

text \<open>
  Python's \<open>==\<close>: numbers compare by value across \<open>bool\<close>, \<open>int\<close> and \<open>float\<close>, lists
  element by element, dictionaries key by key whatever their order.
\<close>

fun numeric :: "pyval \<Rightarrow> real option" where
  "numeric (VBool b) = Some (if b then 1 else 0)"
| "numeric (VInt i) = Some (of_int i)"
| "numeric (VFloat r) = Some r"
| "numeric _ = None"

fun py_eq :: "pyval \<Rightarrow> pyval \<Rightarrow> bool" where
  "py_eq (VList xs) (VList ys) = list_all2 py_eq xs ys"
| "py_eq (VList _) _ = False"
| "py_eq (VDict xs) (VDict ys) =
     (length xs = length ys \<and>
      list_all (\<lambda>kv. case map_of ys (fst kv) of None \<Rightarrow> False | Some w \<Rightarrow> py_eq (snd kv) w) xs)"
| "py_eq (VDict _) _ = False"
| "py_eq (VStr a) b = (b = VStr a)"
| "py_eq (VUri u p h) b = (b = VUri u p h)"
| "py_eq VNone b = (b = VNone)"
| "py_eq a b = (case numeric b of None \<Rightarrow> False | Some r \<Rightarrow> numeric a = Some r)"

text \<open>\<open>value in options\<close> for a list or tuple \<open>options\<close>.\<close>

definition py_in :: "pyval \<Rightarrow> pyval list \<Rightarrow> bool" where
  "py_in v xs = list_ex (py_eq v) xs"

section \<open>Errors\<close>

text \<open>
  Every \<open>raise\<close> of the source is a value. A \<open>ConfigurationError\<close> carries the message
  template it was built from together with the objects formatted into it, so that a theorem
  can say which key or element an error names. \<open>ConfigurationError\<close> derives from
  \<open>Exception\<close>, not from \<open>ValueError\<close>, so an \<open>except ValueError\<close> lets it through.
\<close>

datatype tname = TypeObj pytype | DictLit

datatype message =
    NoValue string
  | NotOneOf pyval string
  | CannotConvert pyval string tname
  | WrongShape string pyval pytype
  | CannotConvertInList pyval string tname
  | InvalidUriSpec string
  | InvalidUserPass string

datatype error = ConfigurationError message | ValueError | KeyError | DecodeError | TypeError

section \<open>The resolver's state\<close>

record config_manager =
  params :: "string \<rightharpoonup> pyval"
  requested_keys :: "string set"
  secret_keys :: "string set"
  local_keys :: "string set"
  decode_iterations_cache :: "pyval option"

text \<open>\<open>__init__(**params)\<close>; the cache slot of the \<open>cached_property\<close> starts empty.\<close>

definition init :: "(string \<rightharpoonup> pyval) \<Rightarrow> config_manager" where
  "init ps = \<lparr>params = ps, requested_keys = {}, secret_keys = {}, local_keys = {},
              decode_iterations_cache = None\<rparr>"

text \<open>
  The private methods \<open>_get\<close>, \<open>_add_key\<close>, \<open>_check_options\<close>, \<open>_get_typed_value\<close>,
  \<open>_get_typed_list_value\<close>, \<open>_decode\<close> keep their names without the leading underscore.
\<close>

definition get :: "config_manager \<Rightarrow> string \<Rightarrow> error + pyval" where
  "get cm key = (case params cm key of None \<Rightarrow> Inl KeyError | Some v \<Rightarrow> Inr v)"

definition add_key :: "config_manager \<Rightarrow> string \<Rightarrow> bool \<Rightarrow> bool \<Rightarrow> config_manager" where
  "add_key cm key is_secret is_local =
     (let cm1 = cm\<lparr>requested_keys := insert key (requested_keys cm)\<rparr>;
          cm2 = (if is_secret then cm1\<lparr>secret_keys := insert key (secret_keys cm1)\<rparr> else cm1)
      in if is_local then cm2\<lparr>local_keys := insert key (local_keys cm2)\<rparr> else cm2)"

text \<open>\<open>options\<close> is \<open>None\<close> or a list or tuple; \<open>None\<close> and the empty sequence are falsy.\<close>

definition check_options :: "string \<Rightarrow> pyval \<Rightarrow> pyval list option \<Rightarrow> error + unit" where
  "check_options key val options =
     (case options of
        None \<Rightarrow> Inr ()
      | Some os \<Rightarrow>
          if os \<noteq> [] \<and> \<not> py_in val os
          then Inl (ConfigurationError (NotOneOf val key))
          else Inr ())"

text \<open>The handler \<open>except ValueError\<close> of the string branch.\<close>

definition except_value_error :: "pyval \<Rightarrow> string \<Rightarrow> pytype \<Rightarrow> error \<Rightarrow> error" where
  "except_value_error val key target_type e =
     (if e = ValueError then ConfigurationError (CannotConvert val key (TypeObj target_type))
      else e)"

definition get_typed_value ::
  "config_manager \<Rightarrow> string \<Rightarrow> pytype \<Rightarrow> (string \<Rightarrow> error + pyval) \<Rightarrow> bool \<Rightarrow> bool \<Rightarrow> bool \<Rightarrow>
   pyval \<Rightarrow> pyval list option \<Rightarrow> (error + pyval) \<times> config_manager" where
  "get_typed_value cm key target_type type_convert is_optional is_secret is_local dflt options =
     (case get cm key of
        Inl _ \<Rightarrow>
          if \<not> is_optional then (Inl (ConfigurationError (NoValue key)), cm)
          else (Inr dflt, cm)
      | Inr val \<Rightarrow>
          (case val of
             VStr s \<Rightarrow>
               (let cm' = add_key cm key is_secret is_local in
                case check_options key val options of
                  Inl e \<Rightarrow> (Inl (except_value_error val key target_type e), cm')
                | Inr _ \<Rightarrow>
                    (case type_convert s of
                       Inl e \<Rightarrow> (Inl (except_value_error val key target_type e), cm')
                     | Inr v \<Rightarrow> (Inr v, cm')))
           | _ \<Rightarrow>
               if isinstance val target_type then
                 (let cm' = add_key cm key is_secret is_local in
                  case check_options key val options of
                    Inl e \<Rightarrow> (Inl e, cm')
                  | Inr _ \<Rightarrow> (Inr val, cm'))
               else (Inl (ConfigurationError (WrongShape key val target_type)), cm)))"

section \<open>String builtins\<close>

text \<open>
  \<open>s.split(sep)\<close> for a one-character separator: the pieces between the occurrences of
  \<open>sep\<close>, one more than there are occurrences. \<open>split_from\<close> scans the string with the piece
  read so far.
\<close>

fun split_from :: "char \<Rightarrow> string \<Rightarrow> string \<Rightarrow> string list" where
  "split_from sep piece [] = [piece]"
| "split_from sep piece (c # cs) =
     (if c = sep then piece # split_from sep [] cs
      else split_from sep (piece @ [c]) cs)"

definition str_split :: "char \<Rightarrow> string \<Rightarrow> string list" where
  "str_split sep s = split_from sep [] s"

text \<open>
  \<open>s.strip()\<close> removes the leading and trailing characters for which \<open>isspace()\<close> holds;
  below code point 256 these are 9 to 13, 28 to 32, 133 and 160.
\<close>

definition is_space :: "char \<Rightarrow> bool" where
  "is_space c = ((of_char c :: nat) \<in> set [9, 10, 11, 12, 13, 28, 29, 30, 31, 32, 133, 160])"

definition str_strip :: "string \<Rightarrow> string" where
  "str_strip s = rev (dropWhile is_space (rev (dropWhile is_space s)))"

text \<open>
  \<open>s.lower()\<close> on the ASCII letters. The other characters are left alone: none of them
  lowers to an ASCII letter, so membership in a list of ASCII words is not affected.
\<close>

definition lower_char :: "char \<Rightarrow> char" where
  "lower_char c =
     (case map_of (zip ''ABCDEFGHIJKLMNOPQRSTUVWXYZ'' ''abcdefghijklmnopqrstuvwxyz'') c of
        None \<Rightarrow> c
      | Some d \<Rightarrow> d)"

definition str_lower :: "string \<Rightarrow> string" where
  "str_lower s = map lower_char s"

text \<open>\<open>distutils.util.strtobool\<close>, as the standard library defines it.\<close>

definition strtobool :: "string \<Rightarrow> error + int" where
  "strtobool val =
     (let v = str_lower val in
      if v \<in> set [''y'', ''yes'', ''t'', ''true'', ''on'', ''1''] then Inr 1
      else if v \<in> set [''n'', ''no'', ''f'', ''false'', ''off'', ''0''] then Inr 0
      else Inl ValueError)"

section \<open>Library functions taken as parameters\<close>

text \<open>
  \<open>int\<close> and \<open>float\<close> on a string, \<open>json.loads\<close>, the pass
  \<open>base64.b64decode(value).decode('utf-8')\<close> and \<open>'{}'.format(value)\<close> belong to the Python
  library. The getters are defined for any behaviour of them; \<open>None\<close> stands for the
  exception the function raises (\<open>ValueError\<close> for the first three, a decoding error for the
  fourth).
\<close>

record pylib =
  py_int :: "string \<Rightarrow> int option"
  py_float :: "string \<Rightarrow> real option"
  json_loads :: "string \<Rightarrow> pyval option"
  b64decode_utf8 :: "string \<Rightarrow> string option"
  py_format :: "pyval \<Rightarrow> string"

section \<open>The converters passed as \<open>type_convert\<close>\<close>

definition int_convert :: "pylib \<Rightarrow> string \<Rightarrow> error + pyval" where
  "int_convert lib x = (case py_int lib x of None \<Rightarrow> Inl ValueError | Some i \<Rightarrow> Inr (VInt i))"

definition float_convert :: "pylib \<Rightarrow> string \<Rightarrow> error + pyval" where
  "float_convert lib x =
     (case py_float lib x of None \<Rightarrow> Inl ValueError | Some r \<Rightarrow> Inr (VFloat r))"

text \<open>\<open>lambda x: bool(strtobool(x))\<close>\<close>

definition bool_convert :: "string \<Rightarrow> error + pyval" where
  "bool_convert x = (case strtobool x of Inl e \<Rightarrow> Inl e | Inr n \<Rightarrow> Inr (VBool (n \<noteq> 0)))"

definition str_convert :: "string \<Rightarrow> error + pyval" where
  "str_convert x = Inr (VStr x)"

definition json_convert :: "pylib \<Rightarrow> string \<Rightarrow> error + pyval" where
  "json_convert lib x = (case json_loads lib x of None \<Rightarrow> Inl ValueError | Some v \<Rightarrow> Inr v)"

definition convert_to_dict :: "pylib \<Rightarrow> string \<Rightarrow> error + pyval" where
  "convert_to_dict lib x =
     (case json_convert lib x of
        Inl e \<Rightarrow> Inl e
      | Inr v \<Rightarrow> if \<not> isinstance v TMapping then Inl ValueError else Inr v)"

definition parse_uri_spec :: "string \<Rightarrow> error + pyval" where
  "parse_uri_spec uri_spec =
     (case str_split CHR ''@'' uri_spec of
        [user_pass, host] \<Rightarrow>
          (case str_split CHR '':'' user_pass of
             [user, password] \<Rightarrow> Inr (VUri user password host)
           | _ \<Rightarrow> Inl (ConfigurationError (InvalidUserPass uri_spec)))
      | _ \<Rightarrow> Inl (ConfigurationError (InvalidUriSpec uri_spec)))"

definition parse_list :: "string \<Rightarrow> error + pyval" where
  "parse_list v =
     Inr (VList (map VStr (filter (\<lambda>part. part \<noteq> []) (map str_strip (str_split CHR '','' v)))))"

section \<open>The list engine\<close>

definition raise_type_of :: "pytype \<Rightarrow> tname" where
  "raise_type_of target_type = (if target_type = TMapping then DictLit else TypeObj target_type)"

text \<open>One round of the loop over the fetched list: the element to append, or the error raised.\<close>

definition convert_element ::
  "string \<Rightarrow> pytype \<Rightarrow> (string \<Rightarrow> error + pyval) \<Rightarrow> pyval \<Rightarrow> error + pyval" where
  "convert_element key target_type type_convert v =
     (case v of
        VStr s \<Rightarrow>
          (case type_convert s of
             Inl e \<Rightarrow>
               Inl (if e = ValueError
                    then ConfigurationError (CannotConvertInList v key (raise_type_of target_type))
                    else e)
           | Inr x \<Rightarrow> Inr x)
      | _ \<Rightarrow>
          if isinstance v target_type then Inr v
          else Inl (ConfigurationError (CannotConvertInList v key (raise_type_of target_type))))"

fun convert_loop ::
  "string \<Rightarrow> pytype \<Rightarrow> (string \<Rightarrow> error + pyval) \<Rightarrow> pyval list \<Rightarrow> pyval list \<Rightarrow>
   error + pyval list" where
  "convert_loop key target_type type_convert result [] = Inr result"
| "convert_loop key target_type type_convert result (v # vs) =
     (case convert_element key target_type type_convert v of
        Inl e \<Rightarrow> Inl e
      | Inr x \<Rightarrow> convert_loop key target_type type_convert (result @ [x]) vs)"

definition get_typed_list_value ::
  "pylib \<Rightarrow> config_manager \<Rightarrow> string \<Rightarrow> pytype \<Rightarrow> (string \<Rightarrow> error + pyval) \<Rightarrow> bool \<Rightarrow> bool \<Rightarrow>
   bool \<Rightarrow> pyval \<Rightarrow> pyval list option \<Rightarrow> (error + pyval) \<times> config_manager" where
  "get_typed_list_value lib cm key target_type type_convert is_optional is_secret is_local dflt
     options =
     (case get_typed_value cm key TList (json_convert lib) is_optional is_secret is_local dflt
             options of
        (Inl e, cm') \<Rightarrow> (Inl e, cm')
      | (Inr val, cm') \<Rightarrow>
          if \<not> truthy val then (Inr dflt, cm')
          else
            (case val of
               VList vs \<Rightarrow>
                 (case convert_loop key target_type type_convert [] vs of
                    Inl e \<Rightarrow> (Inl e, cm')
                  | Inr result \<Rightarrow> (Inr (VList result), cm'))
             | _ \<Rightarrow>
                 (Inl (ConfigurationError (CannotConvert val key (raise_type_of target_type))),
                  cm')))"

section \<open>The typed getters\<close>

text \<open>
  The keyword arguments are passed in the order of the signature: \<open>key\<close>, \<open>is_list\<close>,
  \<open>is_optional\<close>, \<open>is_secret\<close>, \<open>is_local\<close>, \<open>default\<close>, \<open>options\<close>. Their defaults are
  \<open>False\<close>, \<open>False\<close>, \<open>False\<close>, \<open>False\<close>, \<open>None\<close> and \<open>None\<close>.
\<close>

definition get_int ::
  "pylib \<Rightarrow> config_manager \<Rightarrow> string \<Rightarrow> bool \<Rightarrow> bool \<Rightarrow> bool \<Rightarrow> bool \<Rightarrow> pyval \<Rightarrow>
   pyval list option \<Rightarrow> (error + pyval) \<times> config_manager" where
  "get_int lib cm key is_list is_optional is_secret is_local dflt options =
     (if is_list then
        get_typed_list_value lib cm key TInt (int_convert lib) is_optional is_secret is_local dflt
          options
      else
        get_typed_value cm key TInt (int_convert lib) is_optional is_secret is_local dflt options)"

definition get_float ::
  "pylib \<Rightarrow> config_manager \<Rightarrow> string \<Rightarrow> bool \<Rightarrow> bool \<Rightarrow> bool \<Rightarrow> bool \<Rightarrow> pyval \<Rightarrow>
   pyval list option \<Rightarrow> (error + pyval) \<times> config_manager" where
  "get_float lib cm key is_list is_optional is_secret is_local dflt options =
     (if is_list then
        get_typed_list_value lib cm key TFloat (float_convert lib) is_optional is_secret is_local dflt
          options
      else
        get_typed_value cm key TFloat (float_convert lib) is_optional is_secret is_local dflt options)"

definition get_boolean ::
  "pylib \<Rightarrow> config_manager \<Rightarrow> string \<Rightarrow> bool \<Rightarrow> bool \<Rightarrow> bool \<Rightarrow> bool \<Rightarrow> pyval \<Rightarrow>
   pyval list option \<Rightarrow> (error + pyval) \<times> config_manager" where
  "get_boolean lib cm key is_list is_optional is_secret is_local dflt options =
     (if is_list then
        get_typed_list_value lib cm key TBool bool_convert is_optional is_secret is_local dflt
          options
      else
        get_typed_value cm key TBool bool_convert is_optional is_secret is_local dflt options)"

definition get_string ::
  "pylib \<Rightarrow> config_manager \<Rightarrow> string \<Rightarrow> bool \<Rightarrow> bool \<Rightarrow> bool \<Rightarrow> bool \<Rightarrow> pyval \<Rightarrow>
   pyval list option \<Rightarrow> (error + pyval) \<times> config_manager" where
  "get_string lib cm key is_list is_optional is_secret is_local dflt options =
     (if is_list then
        get_typed_list_value lib cm key TStr str_convert is_optional is_secret is_local dflt
          options
      else
        get_typed_value cm key TStr str_convert is_optional is_secret is_local dflt options)"

definition get_dict ::
  "pylib \<Rightarrow> config_manager \<Rightarrow> string \<Rightarrow> bool \<Rightarrow> bool \<Rightarrow> bool \<Rightarrow> bool \<Rightarrow> pyval \<Rightarrow>
   pyval list option \<Rightarrow> (error + pyval) \<times> config_manager" where
  "get_dict lib cm key is_list is_optional is_secret is_local dflt options =
     (if is_list then
        get_typed_list_value lib cm key TMapping (convert_to_dict lib) is_optional is_secret
          is_local dflt options
      else
        (case get_typed_value cm key TMapping (convert_to_dict lib) is_optional is_secret
                is_local dflt options of
           (Inl e, cm') \<Rightarrow> (Inl e, cm')
         | (Inr val, cm') \<Rightarrow>
             if \<not> truthy val then (Inr dflt, cm')
             else if \<not> isinstance val TMapping
             then (Inl (ConfigurationError (CannotConvert val key DictLit)), cm')
             else (Inr val, cm')))"

definition get_uri ::
  "pylib \<Rightarrow> config_manager \<Rightarrow> string \<Rightarrow> bool \<Rightarrow> bool \<Rightarrow> bool \<Rightarrow> bool \<Rightarrow> pyval \<Rightarrow>
   pyval list option \<Rightarrow> (error + pyval) \<times> config_manager" where
  "get_uri lib cm key is_list is_optional is_secret is_local dflt options =
     (if is_list then
        get_typed_list_value lib cm key TUriSpec parse_uri_spec is_optional is_secret is_local dflt
          options
      else
        get_typed_value cm key TUriSpec parse_uri_spec is_optional is_secret is_local dflt options)"

definition get_list ::
  "config_manager \<Rightarrow> string \<Rightarrow> bool \<Rightarrow> bool \<Rightarrow> bool \<Rightarrow> pyval \<Rightarrow> pyval list option \<Rightarrow>
   (error + pyval) \<times> config_manager" where
  "get_list cm key is_optional is_secret is_local dflt options =
     get_typed_value cm key TList parse_list is_optional is_secret is_local dflt options"

text \<open>
  The public getters under one name, to state a property of every one of them. \<open>get_list\<close>
  has no \<open>is_list\<close> argument.
\<close>

datatype getter = GetInt | GetFloat | GetBoolean | GetString | GetDict | GetUri | GetList

fun call_getter ::
  "pylib \<Rightarrow> getter \<Rightarrow> config_manager \<Rightarrow> string \<Rightarrow> bool \<Rightarrow> bool \<Rightarrow> bool \<Rightarrow> bool \<Rightarrow> pyval \<Rightarrow>
   pyval list option \<Rightarrow> (error + pyval) \<times> config_manager" where
  "call_getter lib GetInt cm key is_list is_optional is_secret is_local dflt options =
     get_int lib cm key is_list is_optional is_secret is_local dflt options"
| "call_getter lib GetFloat cm key is_list is_optional is_secret is_local dflt options =
     get_float lib cm key is_list is_optional is_secret is_local dflt options"
| "call_getter lib GetBoolean cm key is_list is_optional is_secret is_local dflt options =
     get_boolean lib cm key is_list is_optional is_secret is_local dflt options"
| "call_getter lib GetString cm key is_list is_optional is_secret is_local dflt options =
     get_string lib cm key is_list is_optional is_secret is_local dflt options"
| "call_getter lib GetDict cm key is_list is_optional is_secret is_local dflt options =
     get_dict lib cm key is_list is_optional is_secret is_local dflt options"
| "call_getter lib GetUri cm key is_list is_optional is_secret is_local dflt options =
     get_uri lib cm key is_list is_optional is_secret is_local dflt options"
| "call_getter lib GetList cm key is_list is_optional is_secret is_local dflt options =
     get_list cm key is_optional is_secret is_local dflt options"

text \<open>The \<open>target_type\<close> and \<open>type_convert\<close> each getter hands to the engines.\<close>

fun target_of :: "getter \<Rightarrow> pytype" where
  "target_of GetInt = TInt"
| "target_of GetFloat = TFloat"
| "target_of GetBoolean = TBool"
| "target_of GetString = TStr"
| "target_of GetDict = TMapping"
| "target_of GetUri = TUriSpec"
| "target_of GetList = TList"

fun converter_of :: "pylib \<Rightarrow> getter \<Rightarrow> string \<Rightarrow> error + pyval" where
  "converter_of lib GetInt = int_convert lib"
| "converter_of lib GetFloat = float_convert lib"
| "converter_of lib GetBoolean = bool_convert"
| "converter_of lib GetString = str_convert"
| "converter_of lib GetDict = convert_to_dict lib"
| "converter_of lib GetUri = parse_uri_spec"
| "converter_of lib GetList = parse_list"

section \<open>Export of the requested parameters\<close>

definition selected_keys :: "config_manager \<Rightarrow> bool \<Rightarrow> bool \<Rightarrow> string set" where
  "selected_keys cm include_secrets include_locals =
     {key \<in> requested_keys cm.
        \<not> (\<not> include_secrets \<and> key \<in> secret_keys cm) \<and>
        \<not> (\<not> include_locals \<and> key \<in> local_keys cm)}"

text \<open>\<open>self._params[key]\<close> raises \<open>KeyError\<close> for a key that is not in the parameters.\<close>

definition get_requested_params ::
  "pylib \<Rightarrow> config_manager \<Rightarrow> bool \<Rightarrow> bool \<Rightarrow> bool \<Rightarrow> error + (string \<rightharpoonup> pyval)" where
  "get_requested_params lib cm include_secrets include_locals to_str =
     (let keys = selected_keys cm include_secrets include_locals in
      if \<exists>key \<in> keys. params cm key = None then Inl KeyError
      else Inr (\<lambda>key. if key \<in> keys
                      then map_option (\<lambda>v. if to_str then VStr (py_format lib v) else v)
                             (params cm key)
                      else None))"

section \<open>Decoding\<close>

text \<open>The \<open>cached_property\<close>: computed on the first access that succeeds, then kept.\<close>

definition decode_iterations :: "pylib \<Rightarrow> config_manager \<Rightarrow> (error + pyval) \<times> config_manager" where
  "decode_iterations lib cm =
     (case decode_iterations_cache cm of
        Some v \<Rightarrow> (Inr v, cm)
      | None \<Rightarrow>
          (case get_int lib cm ''_POLYAXON_DECODE_ITERATION'' False True False False (VInt 1) None of
             (Inl e, cm') \<Rightarrow> (Inl e, cm')
           | (Inr v, cm') \<Rightarrow> (Inr v, cm'\<lparr>decode_iterations_cache := Some v\<rparr>)))"

text \<open>The number of rounds of \<open>for _ in range(iteration)\<close>; \<open>range\<close> wants an integer.\<close>

fun range_rounds :: "pyval \<Rightarrow> error + nat" where
  "range_rounds (VInt i) = Inr (nat i)"
| "range_rounds (VBool b) = Inr (if b then 1 else 0)"
| "range_rounds _ = Inl TypeError"

fun decode_loop :: "pylib \<Rightarrow> nat \<Rightarrow> string \<Rightarrow> error + string" where
  "decode_loop lib 0 val = Inr val"
| "decode_loop lib (Suc n) val =
     (case b64decode_utf8 lib val of
        None \<Rightarrow> Inl DecodeError
      | Some v \<Rightarrow> decode_loop lib n v)"

text \<open>
  \<open>_decode(self, value, iteration=3)\<close>. The argument \<open>iteration\<close> is \<open>None\<close> here when the
  caller leaves it out, and then takes the default of the signature.
\<close>

definition decode ::
  "pylib \<Rightarrow> config_manager \<Rightarrow> string \<Rightarrow> pyval option \<Rightarrow> (error + string) \<times> config_manager" where
  "decode lib cm val iteration =
     (let it0 = (case iteration of None \<Rightarrow> VInt 3 | Some a \<Rightarrow> a) in
      case (if truthy it0 then (Inr it0, cm) else decode_iterations lib cm) of
        (Inl e, cm') \<Rightarrow> (Inl e, cm')
      | (Inr it, cm') \<Rightarrow>
          (case range_rounds it of
             Inl e \<Rightarrow> (Inl e, cm')
           | Inr n \<Rightarrow> (decode_loop lib n val, cm')))"

section \<open>Callers\<close>

text \<open>
  A use of the resolver by its caller: a getter call, a read of \<open>decode_iterations\<close> or a
  call of \<open>_decode\<close>. The caller goes on with the same instance whatever a call returns or
  raises.
\<close>

datatype call =
    Call getter string bool bool bool bool pyval "pyval list option"
  | DecodeIterations
  | Decode string "pyval option"

fun run_call :: "pylib \<Rightarrow> config_manager \<Rightarrow> call \<Rightarrow> config_manager" where
  "run_call lib cm (Call g key is_list is_optional is_secret is_local dflt options) =
     snd (call_getter lib g cm key is_list is_optional is_secret is_local dflt options)"
| "run_call lib cm DecodeIterations = snd (decode_iterations lib cm)"
| "run_call lib cm (Decode val iteration) = snd (decode lib cm val iteration)"

fun run_calls :: "pylib \<Rightarrow> config_manager \<Rightarrow> call list \<Rightarrow> config_manager" where
  "run_calls lib cm [] = cm"
| "run_calls lib cm (c # cs) = run_calls lib (run_call lib cm c) cs"

section \<open>Notions used in the statements\<close>

text \<open>
  The class the single-value engine tests the stored value against: \<open>list\<close> when a getter
  is called with \<open>is_list\<close>, the getter's own class otherwise.
\<close>

definition engine_target :: "getter \<Rightarrow> bool \<Rightarrow> pytype" where
  "engine_target g is_list = (if is_list \<and> g \<noteq> GetList then TList else target_of g)"

definition is_str :: "pyval \<Rightarrow> bool" where
  "is_str v = (case v of VStr _ \<Rightarrow> True | _ \<Rightarrow> False)"

text \<open>
  An element the list engine accepts (a string its converter accepts, or an object of the
  target class), what it appends for it, and an element it rejects as malformed.
\<close>

definition element_ok :: "pytype \<Rightarrow> (string \<Rightarrow> error + pyval) \<Rightarrow> pyval \<Rightarrow> bool" where
  "element_ok target_type type_convert v =
     (case v of VStr s \<Rightarrow> \<not> isl (type_convert s) | _ \<Rightarrow> isinstance v target_type)"

definition element_value :: "(string \<Rightarrow> error + pyval) \<Rightarrow> pyval \<Rightarrow> pyval" where
  "element_value type_convert v =
     (case v of VStr s \<Rightarrow> (case type_convert s of Inr x \<Rightarrow> x | Inl _ \<Rightarrow> v) | _ \<Rightarrow> v)"

definition element_malformed :: "pytype \<Rightarrow> (string \<Rightarrow> error + pyval) \<Rightarrow> pyval \<Rightarrow> bool" where
  "element_malformed target_type type_convert v =
     (case v of VStr s \<Rightarrow> type_convert s = Inl ValueError | _ \<Rightarrow> \<not> isinstance v target_type)"

text \<open>The grammar \<open>user:pass@host\<close>: one \<open>@\<close>, and one \<open>:\<close> before it.\<close>

definition uri_grammar :: "string \<Rightarrow> bool" where
  "uri_grammar s =
     (count_list s CHR ''@'' = 1 \<and>
      count_list (takeWhile (\<lambda>c. c \<noteq> CHR ''@'') s) CHR '':'' = 1)"

text \<open>
  A library for the worked examples. It answers as CPython does on the strings the examples
  pass to it: \<open>int\<close> of \<open>42\<close> and \<open>1\<close>, \<open>float\<close> of \<open>0.5\<close>, \<open>json.loads\<close> of three texts,
  three Base64 texts (the encodings of \<open>a\<close>, once, twice and three times), and the formatting
  of a string, which is the string. Every other string raises; of those the examples use
  only \<open>abc\<close> and \<open>x\<close> for \<open>int\<close>, which CPython rejects as well. No example formats an
  object other than a string.
\<close>

definition sample_lib :: pylib where
  "sample_lib =
     \<lparr>py_int = map_of [(''42'', 42), (''1'', 1)],
      py_float = map_of [(''0.5'', 1 / 2)],
      json_loads = map_of
        [(''[1,2,3]'', VList [VInt 1, VInt 2, VInt 3]),
         (''[1,\"x\"]'', VList [VInt 1, VStr ''x'']),
         (''{}'', VDict [])],
      b64decode_utf8 = map_of
        [(''V1ZFOVBRPT0='', ''WVE9PQ==''), (''WVE9PQ=='', ''YQ==''), (''YQ=='', ''a'')],
      py_format = (\<lambda>v. case v of VStr s \<Rightarrow> s | _ \<Rightarrow> [])\<rparr>"

section \<open>The URI parser\<close>

lemma length_split_from: "length (split_from sep piece s) = Suc (count_list s sep)"
  by (induction s arbitrary: piece) auto

lemma split_from_absent: "sep \<notin> set s \<Longrightarrow> split_from sep piece s = [piece @ s]"
  by (induction s arbitrary: piece) auto

lemma split_from_present:
  "sep \<in> set s \<Longrightarrow>
   split_from sep piece s =
     (piece @ takeWhile (\<lambda>c. c \<noteq> sep) s) #
     split_from sep [] (tl (dropWhile (\<lambda>c. c \<noteq> sep) s))"
  by (induction s arbitrary: piece) auto

lemma count_list_after_first:
  "sep \<in> set s \<Longrightarrow>
   count_list s sep = Suc (count_list (tl (dropWhile (\<lambda>c. c \<noteq> sep) s)) sep)"
  by (induction s) auto

lemma count_list_none: "count_list s sep = 0 \<longleftrightarrow> sep \<notin> set s"
  by (induction s) auto

lemma str_split_two:
  assumes "count_list s sep = 1"
  shows "str_split sep s =
           [takeWhile (\<lambda>c. c \<noteq> sep) s, tl (dropWhile (\<lambda>c. c \<noteq> sep) s)]"
proof -
  from assms have mem: "sep \<in> set s"
    using count_list_none [of s sep] by auto
  with assms have "count_list (tl (dropWhile (\<lambda>c. c \<noteq> sep) s)) sep = 0"
    using count_list_after_first [of sep s] by simp
  then have "sep \<notin> set (tl (dropWhile (\<lambda>c. c \<noteq> sep) s))"
    by (simp add: count_list_none)
  then show ?thesis
    using mem by (simp add: str_split_def split_from_present split_from_absent)
qed

lemma str_split_not_two: "count_list s sep \<noteq> 1 \<Longrightarrow> length (str_split sep s) \<noteq> 2"
  by (simp add: str_split_def length_split_from)

lemma parse_uri_spec_cases:
  "parse_uri_spec s =
     (if count_list s CHR ''@'' = 1 then
        (if count_list (takeWhile (\<lambda>c. c \<noteq> CHR ''@'') s) CHR '':'' = 1 then
           Inr (VUri (takeWhile (\<lambda>c. c \<noteq> CHR '':'') (takeWhile (\<lambda>c. c \<noteq> CHR ''@'') s))
                     (tl (dropWhile (\<lambda>c. c \<noteq> CHR '':'') (takeWhile (\<lambda>c. c \<noteq> CHR ''@'') s)))
                     (tl (dropWhile (\<lambda>c. c \<noteq> CHR ''@'') s)))
         else Inl (ConfigurationError (InvalidUserPass s)))
      else Inl (ConfigurationError (InvalidUriSpec s)))"
proof (cases "count_list s CHR ''@'' = 1")
  case at: True
  show ?thesis
  proof (cases "count_list (takeWhile (\<lambda>c. c \<noteq> CHR ''@'') s) CHR '':'' = 1")
    case True
    with at show ?thesis
      by (simp add: parse_uri_spec_def str_split_two)
  next
    case False
    then have "length (str_split CHR '':'' (takeWhile (\<lambda>c. c \<noteq> CHR ''@'') s)) \<noteq> 2"
      by (rule str_split_not_two)
    with at False show ?thesis
      by (auto simp: parse_uri_spec_def str_split_two split: list.splits)
  qed
next
  case False
  then have "length (str_split CHR ''@'' s) \<noteq> 2"
    by (rule str_split_not_two)
  with False show ?thesis
    by (auto simp: parse_uri_spec_def split: list.splits)
qed

text \<open>
  C5. \<open>parse_uri_spec\<close> returns a \<open>UriSpec\<close> exactly when its input has exactly one \<open>@\<close> and
  the part before it exactly one \<open>:\<close>. The user is then the text before the colon, the
  password the text between the colon and the \<open>@\<close>, the host the text after the \<open>@\<close>. Every
  other input raises a \<open>ConfigurationError\<close> whose message carries the raw text; both
  messages of the source show the grammar \<open>user:pass@host\<close>.
\<close>

theorem parse_uri_spec_grammar:
  "(uri_grammar s \<longrightarrow>
      parse_uri_spec s =
        Inr (VUri (takeWhile (\<lambda>c. c \<noteq> CHR '':'') s)
                  (tl (dropWhile (\<lambda>c. c \<noteq> CHR '':'') (takeWhile (\<lambda>c. c \<noteq> CHR ''@'') s)))
                  (tl (dropWhile (\<lambda>c. c \<noteq> CHR ''@'') s)))) \<and>
   (\<not> uri_grammar s \<longrightarrow>
      parse_uri_spec s = Inl (ConfigurationError (InvalidUriSpec s)) \<or>
      parse_uri_spec s = Inl (ConfigurationError (InvalidUserPass s))) \<and>
   ((\<exists>u p h. parse_uri_spec s = Inr (VUri u p h)) \<longleftrightarrow> uri_grammar s)"
proof -
  have user: "takeWhile (\<lambda>c. c \<noteq> CHR '':'') (takeWhile (\<lambda>c. c \<noteq> CHR ''@'') s) =
              takeWhile (\<lambda>c. c \<noteq> CHR '':'') s"
    if "count_list (takeWhile (\<lambda>c. c \<noteq> CHR ''@'') s) CHR '':'' = 1"
    using that by (induction s) (auto split: if_splits)
  show ?thesis
    using user by (auto simp: uri_grammar_def parse_uri_spec_cases)
qed

theorem parse_uri_spec_grammar_witness:
  "uri_grammar ''alice:secret@db.local'' \<and>
   parse_uri_spec ''alice:secret@db.local'' = Inr (VUri ''alice'' ''secret'' ''db.local'') \<and>
   \<not> uri_grammar ''alice@db.local'' \<and>
   parse_uri_spec ''alice@db.local'' = Inl (ConfigurationError (InvalidUserPass ''alice@db.local''))"
proof -
  have g: "uri_grammar ''alice:secret@db.local''"
    by (simp add: uri_grammar_def)
  have n: "\<not> uri_grammar ''alice@db.local''"
    by (simp add: uri_grammar_def)
  have "parse_uri_spec ''alice@db.local'' \<noteq> Inl (ConfigurationError (InvalidUriSpec ''alice@db.local''))"
    by (simp add: parse_uri_spec_def str_split_def)
  with g n show ?thesis
    using parse_uri_spec_grammar [of "''alice:secret@db.local''"]
          parse_uri_spec_grammar [of "''alice@db.local''"]
    by simp
qed

section \<open>State after a call\<close>

lemma get_typed_value_absent:
  "params cm key = None \<Longrightarrow>
   get_typed_value cm key T conv is_optional is_secret is_local dflt options =
     (if is_optional then (Inr dflt, cm) else (Inl (ConfigurationError (NoValue key)), cm))"
  by (simp add: get_typed_value_def get_def)

lemma get_typed_value_state:
  "snd (get_typed_value cm key T conv is_optional is_secret is_local dflt options) =
     (case params cm key of
        None \<Rightarrow> cm
      | Some v \<Rightarrow> if is_str v \<or> isinstance v T then add_key cm key is_secret is_local else cm)"
  by (cases "params cm key")
     (auto simp: get_typed_value_def get_def is_str_def Let_def split: pyval.splits sum.splits)

lemma get_typed_list_value_state:
  "snd (get_typed_list_value lib cm key T conv is_optional is_secret is_local dflt options) =
   snd (get_typed_value cm key TList (json_convert lib) is_optional is_secret is_local dflt
          options)"
  by (simp add: get_typed_list_value_def split: prod.splits sum.splits pyval.splits)

lemma get_dict_state:
  "snd (get_dict lib cm key is_list is_optional is_secret is_local dflt options) =
   snd (get_typed_value cm key (engine_target GetDict is_list)
          (if is_list then json_convert lib else convert_to_dict lib)
          is_optional is_secret is_local dflt options)"
  by (simp add: get_dict_def get_typed_list_value_state engine_target_def
           split: prod.splits sum.splits)

lemma call_getter_state:
  "snd (call_getter lib g cm key is_list is_optional is_secret is_local dflt options) =
     (case params cm key of
        None \<Rightarrow> cm
      | Some v \<Rightarrow>
          if is_str v \<or> isinstance v (engine_target g is_list)
          then add_key cm key is_secret is_local else cm)"
  by (cases g)
     (simp_all add: get_int_def get_float_def get_boolean_def get_string_def get_uri_def
        get_list_def get_dict_state get_typed_list_value_state get_typed_value_state
        engine_target_def split: option.splits)


lemma params_add_key [simp]: "params (add_key cm key is_secret is_local) = params cm"
  by (simp add: add_key_def Let_def)

lemma requested_add_key [simp]:
  "requested_keys (add_key cm key is_secret is_local) = insert key (requested_keys cm)"
  by (simp add: add_key_def Let_def)

lemma secret_add_key [simp]:
  "secret_keys (add_key cm key is_secret is_local) =
     (if is_secret then insert key (secret_keys cm) else secret_keys cm)"
  by (simp add: add_key_def Let_def)

lemma local_add_key [simp]:
  "local_keys (add_key cm key is_secret is_local) =
     (if is_local then insert key (local_keys cm) else local_keys cm)"
  by (simp add: add_key_def Let_def)

lemma params_call_getter:
  "params (snd (call_getter lib g cm key is_list is_optional is_secret is_local dflt options)) =
   params cm"
  by (simp add: call_getter_state split: option.splits)

lemma params_decode_iterations: "params (snd (decode_iterations lib cm)) = params cm"
proof (cases "decode_iterations_cache cm")
  case None
  have "params (snd (get_int lib cm ''_POLYAXON_DECODE_ITERATION'' False True False False
                       (VInt 1) None)) = params cm"
    using params_call_getter [of lib GetInt] by simp
  with None show ?thesis
    by (auto simp: decode_iterations_def split: prod.splits sum.splits)
next
  case (Some v)
  then show ?thesis by (simp add: decode_iterations_def)
qed

lemma decode_state:
  "snd (decode lib cm val iteration) = cm \<or>
   snd (decode lib cm val iteration) = snd (decode_iterations lib cm)"
  by (auto simp: decode_def Let_def split: prod.splits sum.splits)

lemma params_decode: "params (snd (decode lib cm val iteration)) = params cm"
  using decode_state [of lib cm val iteration] by (auto simp: params_decode_iterations)

lemma params_run_call: "params (run_call lib cm c) = params cm"
  by (cases c) (simp_all add: params_call_getter params_decode_iterations params_decode)

lemma params_run_calls: "params (run_calls lib cm cs) = params cm"
  by (induction cs arbitrary: cm) (simp_all add: params_run_call)

text \<open>
  C9. Whatever sequence of getter calls (and of reads of \<open>decode_iterations\<close> and calls of
  \<open>_decode\<close>) a caller makes, and whether each call returns or raises, the raw parameters of
  the resolver afterwards are those it had before: every key maps to the same value.
\<close>

theorem raw_params_never_mutated:
  "params (run_calls lib cm cs) = params cm \<and>
   params (snd (call_getter lib g cm key is_list is_optional is_secret is_local dflt options)) =
     params cm"
  by (simp add: params_run_calls params_call_getter)

theorem raw_params_never_mutated_witness:
  "params (run_calls sample_lib (init [''k'' \<mapsto> VStr ''abc''])
             [Call GetInt ''k'' False False True False VNone None,
              Call GetList ''k'' False True False True VNone None,
              Decode ''YQ=='' (Some VNone)]) ''k'' = Some (VStr ''abc'')"
  using raw_params_never_mutated
          [of sample_lib "init [''k'' \<mapsto> VStr ''abc'']"
              "[Call GetInt ''k'' False False True False VNone None,
                Call GetList ''k'' False True False True VNone None,
                Decode ''YQ=='' (Some VNone)]"]
  by (simp add: init_def)

section \<open>Bookkeeping\<close>

text \<open>
  C1, as the code has it. A getter call records its key exactly when the key is present and
  its stored value is a string or an object of the class the engine tests for; it does so
  before the options check and the conversion, so whether they then succeed does not matter.
  The key then enters \<open>requested_keys\<close>, and \<open>secret_keys\<close> and \<open>local_keys\<close> as flagged. A
  call on an absent key (optional or not) and a call on a value of another class leave the
  resolver as it was.
\<close>

theorem keys_recorded_when_present:
  "(params cm key = None \<longrightarrow>
      snd (call_getter lib g cm key is_list is_optional is_secret is_local dflt options) = cm) \<and>
   (\<forall>v. params cm key = Some v \<and> \<not> is_str v \<and> \<not> isinstance v (engine_target g is_list) \<longrightarrow>
      snd (call_getter lib g cm key is_list is_optional is_secret is_local dflt options) = cm) \<and>
   (\<forall>v. params cm key = Some v \<and> (is_str v \<or> isinstance v (engine_target g is_list)) \<longrightarrow>
      requested_keys
        (snd (call_getter lib g cm key is_list is_optional is_secret is_local dflt options)) =
        insert key (requested_keys cm) \<and>
      secret_keys
        (snd (call_getter lib g cm key is_list is_optional is_secret is_local dflt options)) =
        (if is_secret then insert key (secret_keys cm) else secret_keys cm) \<and>
      local_keys
        (snd (call_getter lib g cm key is_list is_optional is_secret is_local dflt options)) =
        (if is_local then insert key (local_keys cm) else local_keys cm))"
  by (simp add: call_getter_state)

theorem keys_recorded_when_present_witness:
  "params (init [''k'' \<mapsto> VStr ''v'']) ''k'' = Some (VStr ''v'') \<and> is_str (VStr ''v'') \<and>
   requested_keys
     (snd (call_getter sample_lib GetString (init [''k'' \<mapsto> VStr ''v'']) ''k'' False False True
             False VNone None)) = {''k''} \<and>
   secret_keys
     (snd (call_getter sample_lib GetString (init [''k'' \<mapsto> VStr ''v'']) ''k'' False False True
             False VNone None)) = {''k''} \<and>
   local_keys
     (snd (call_getter sample_lib GetString (init [''k'' \<mapsto> VStr ''v'']) ''k'' False False True
             False VNone None)) = {}"
proof -
  have p: "params (init [''k'' \<mapsto> VStr ''v'']) ''k'' = Some (VStr ''v'')"
    by (simp add: init_def)
  have s: "is_str (VStr ''v'')"
    by (simp add: is_str_def)
  from p s show ?thesis
    using keys_recorded_when_present
            [of "init [''k'' \<mapsto> VStr ''v'']" "''k''" sample_lib GetString False False True False
                VNone None]
    by (simp add: init_def)
qed

text \<open>
  The claim as stated fails: \<open>get_int\<close> on the stored string \<open>abc\<close> raises the conversion
  error, and the key is in \<open>requested_keys\<close> afterwards.
\<close>

theorem failed_conversion_records_key:
  "requested_keys (init [''k'' \<mapsto> VStr ''abc'']) = {} \<and>
   fst (get_int sample_lib (init [''k'' \<mapsto> VStr ''abc'']) ''k'' False False False False VNone None)
     = Inl (ConfigurationError (CannotConvert (VStr ''abc'') ''k'' (TypeObj TInt))) \<and>
   requested_keys
     (snd (get_int sample_lib (init [''k'' \<mapsto> VStr ''abc'']) ''k'' False False False False VNone
             None)) = {''k''}"
  by (simp add: get_int_def get_typed_value_def get_def init_def check_options_def
        int_convert_def sample_lib_def except_value_error_def)


section \<open>The loop over a list, and absent keys\<close>

lemma convert_element_ok:
  "element_ok T conv v \<Longrightarrow> convert_element key T conv v = Inr (element_value conv v)"
  by (cases v) (auto simp: element_ok_def element_value_def convert_element_def split: sum.splits)

lemma convert_element_malformed:
  "element_malformed T conv v \<Longrightarrow>
   convert_element key T conv v =
     Inl (ConfigurationError (CannotConvertInList v key (raise_type_of T)))"
  by (cases v) (auto simp: element_malformed_def convert_element_def)

lemma convert_loop_ok:
  "list_all (element_ok T conv) vs \<Longrightarrow>
   convert_loop key T conv result vs = Inr (result @ map (element_value conv) vs)"
  by (induction vs arbitrary: result) (simp_all add: convert_element_ok)

lemma convert_loop_first_bad:
  "list_all (element_ok T conv) pre \<Longrightarrow> convert_element key T conv v = Inl e \<Longrightarrow>
   convert_loop key T conv result (pre @ v # post) = Inl e"
  by (induction pre arbitrary: result) (simp_all add: convert_element_ok)

lemma element_value_native: "\<not> is_str v \<Longrightarrow> element_value conv v = v"
  by (cases v) (simp_all add: element_value_def is_str_def)

lemma element_ok_native: "\<not> is_str v \<Longrightarrow> element_ok T conv v = isinstance v T"
  by (cases v) (simp_all add: element_ok_def is_str_def)

lemma convert_loop_native:
  "list_all (\<lambda>v. \<not> is_str v \<and> isinstance v T) vs \<Longrightarrow>
   convert_loop key T conv [] vs = Inr vs"
proof -
  assume a: "list_all (\<lambda>v. \<not> is_str v \<and> isinstance v T) vs"
  then have ok: "list_all (element_ok T conv) vs"
    by (induction vs) (simp_all add: element_ok_native)
  from a have "map (element_value conv) vs = vs"
    by (induction vs) (simp_all add: element_value_native)
  with ok show ?thesis
    by (simp add: convert_loop_ok)
qed

lemma get_typed_list_value_absent:
  assumes "params cm key = None"
  shows "get_typed_list_value lib cm key T conv is_optional is_secret is_local dflt options =
     (if \<not> is_optional then (Inl (ConfigurationError (NoValue key)), cm)
      else if \<not> truthy dflt then (Inr dflt, cm)
      else (case dflt of
              VList vs \<Rightarrow>
                (case convert_loop key T conv [] vs of
                   Inl e \<Rightarrow> (Inl e, cm)
                 | Inr result \<Rightarrow> (Inr (VList result), cm))
            | _ \<Rightarrow> (Inl (ConfigurationError (CannotConvert dflt key (raise_type_of T))), cm)))"
  using assms by (simp add: get_typed_list_value_def get_typed_value_absent)

lemma get_dict_absent:
  assumes "params cm key = None"
  shows "get_dict lib cm key False is_optional is_secret is_local dflt options =
     (if \<not> is_optional then (Inl (ConfigurationError (NoValue key)), cm)
      else if \<not> truthy dflt then (Inr dflt, cm)
      else if \<not> isinstance dflt TMapping
      then (Inl (ConfigurationError (CannotConvert dflt key DictLit)), cm)
      else (Inr dflt, cm))"
  using assms by (simp add: get_dict_def get_typed_value_absent)

lemma call_getter_list_form:
  "g \<noteq> GetList \<Longrightarrow>
   call_getter lib g cm key True is_optional is_secret is_local dflt options =
   get_typed_list_value lib cm key (target_of g) (converter_of lib g) is_optional is_secret
     is_local dflt options"
  by (cases g)
     (simp_all add: get_int_def get_float_def get_boolean_def get_string_def get_uri_def
        get_dict_def)

lemma call_getter_single_form:
  "g \<noteq> GetDict \<Longrightarrow> g = GetList \<or> \<not> is_list \<Longrightarrow>
   call_getter lib g cm key is_list is_optional is_secret is_local dflt options =
   get_typed_value cm key (target_of g) (converter_of lib g) is_optional is_secret is_local dflt
     options"
  by (cases g)
     (auto simp: get_int_def get_float_def get_boolean_def get_string_def get_uri_def
        get_list_def)

text \<open>
  C4, as the code has it. For a key absent from the raw parameters, every getter called with
  \<open>is_optional\<close> false raises the error of the missing non-optional key and leaves the
  resolver as it was. Called with \<open>is_optional\<close> true, every getter leaves the resolver as it
  was, and returns the default unchanged when the getter is a single-value one other than
  \<open>get_dict\<close>, when the default is falsy, when \<open>get_dict\<close> is given a mapping, and when a
  list form is given a list whose elements it keeps as they are: objects of its class that
  are not strings, or strings its converter maps to themselves, which for \<open>get_string\<close> is
  every string. Otherwise a list form returns the default list with its acceptable elements
  converted, and a truthy default of the wrong shape (no list for a list form, no mapping for
  \<open>get_dict\<close>) or with a malformed element raises.
\<close>

theorem absent_key_behaviour:
  assumes "params cm key = None"
  shows
  "(\<not> is_optional \<longrightarrow>
      call_getter lib g cm key is_list is_optional is_secret is_local dflt options =
        (Inl (ConfigurationError (NoValue key)), cm)) \<and>
   (is_optional \<longrightarrow>
      snd (call_getter lib g cm key is_list is_optional is_secret is_local dflt options) = cm \<and>
      (g = GetList \<or> (\<not> is_list \<and> g \<noteq> GetDict) \<longrightarrow>
         fst (call_getter lib g cm key is_list is_optional is_secret is_local dflt options) =
           Inr dflt) \<and>
      (\<not> truthy dflt \<longrightarrow>
         fst (call_getter lib g cm key is_list is_optional is_secret is_local dflt options) =
           Inr dflt) \<and>
      (g = GetDict \<and> \<not> is_list \<and> isinstance dflt TMapping \<longrightarrow>
         fst (call_getter lib g cm key is_list is_optional is_secret is_local dflt options) =
           Inr dflt) \<and>
      (g \<noteq> GetList \<and> is_list \<longrightarrow>
         (\<forall>vs. dflt = VList vs \<and> list_all (\<lambda>v. \<not> is_str v \<and> isinstance v (target_of g)) vs \<longrightarrow>
            fst (call_getter lib g cm key is_list is_optional is_secret is_local dflt options) =
              Inr dflt)) \<and>
      (g = GetString \<and> is_list \<longrightarrow>
         (\<forall>vs. dflt = VList vs \<and> list_all is_str vs \<longrightarrow>
            fst (call_getter lib g cm key is_list is_optional is_secret is_local dflt options) =
              Inr dflt)) \<and>
      (g \<noteq> GetList \<and> is_list \<longrightarrow>
         (\<forall>vs. dflt = VList vs \<and>
               list_all (\<lambda>v. element_ok (target_of g) (converter_of lib g) v \<and>
                             element_value (converter_of lib g) v = v) vs \<longrightarrow>
            fst (call_getter lib g cm key is_list is_optional is_secret is_local dflt options) =
              Inr dflt)) \<and>
      (g \<noteq> GetList \<and> is_list \<longrightarrow>
         (\<forall>vs. dflt = VList vs \<and> list_all (element_ok (target_of g) (converter_of lib g)) vs \<longrightarrow>
            fst (call_getter lib g cm key is_list is_optional is_secret is_local dflt options) =
              Inr (VList (map (element_value (converter_of lib g)) vs)))) \<and>
      (g \<noteq> GetList \<and> is_list \<longrightarrow>
         (\<forall>pre v post. dflt = VList (pre @ v # post) \<and>
               list_all (element_ok (target_of g) (converter_of lib g)) pre \<and>
               element_malformed (target_of g) (converter_of lib g) v \<longrightarrow>
            fst (call_getter lib g cm key is_list is_optional is_secret is_local dflt options) =
              Inl (ConfigurationError
                     (CannotConvertInList v key (raise_type_of (target_of g)))))) \<and>
      (g \<noteq> GetList \<and> is_list \<and> truthy dflt \<and> \<not> isinstance dflt TList \<longrightarrow>
         fst (call_getter lib g cm key is_list is_optional is_secret is_local dflt options) =
           Inl (ConfigurationError (CannotConvert dflt key (raise_type_of (target_of g))))) \<and>
      (g = GetDict \<and> \<not> is_list \<and> truthy dflt \<and> \<not> isinstance dflt TMapping \<longrightarrow>
         fst (call_getter lib g cm key is_list is_optional is_secret is_local dflt options) =
           Inl (ConfigurationError (CannotConvert dflt key DictLit))))"
proof -
  have state: "snd (call_getter lib g cm key is_list is_optional is_secret is_local dflt options)
                 = cm"
    using assms by (simp add: call_getter_state)
  have single: "call_getter lib g cm key is_list is_optional is_secret is_local dflt options =
      (if is_optional then (Inr dflt, cm) else (Inl (ConfigurationError (NoValue key)), cm))"
    if "g = GetList \<or> (\<not> is_list \<and> g \<noteq> GetDict)"
    using that assms by (auto simp: call_getter_single_form get_typed_value_absent get_list_def)
  have dict: "call_getter lib g cm key is_list is_optional is_secret is_local dflt options =
      (if \<not> is_optional then (Inl (ConfigurationError (NoValue key)), cm)
       else if \<not> truthy dflt then (Inr dflt, cm)
       else if \<not> isinstance dflt TMapping
       then (Inl (ConfigurationError (CannotConvert dflt key DictLit)), cm)
       else (Inr dflt, cm))"
    if "g = GetDict" "\<not> is_list"
    using that assms by (simp add: get_dict_absent)
  have lst: "call_getter lib g cm key is_list is_optional is_secret is_local dflt options =
     (if \<not> is_optional then (Inl (ConfigurationError (NoValue key)), cm)
      else if \<not> truthy dflt then (Inr dflt, cm)
      else (case dflt of
              VList vs \<Rightarrow>
                (case convert_loop key (target_of g) (converter_of lib g) [] vs of
                   Inl e \<Rightarrow> (Inl e, cm)
                 | Inr result \<Rightarrow> (Inr (VList result), cm))
            | _ \<Rightarrow>
              (Inl (ConfigurationError (CannotConvert dflt key (raise_type_of (target_of g)))),
               cm)))"
    if "g \<noteq> GetList" "is_list"
    using that assms by (simp add: call_getter_list_form get_typed_list_value_absent)
  have cases: "g = GetList \<or> (\<not> is_list \<and> g \<noteq> GetDict) \<or> (g = GetDict \<and> \<not> is_list) \<or>
               (g \<noteq> GetList \<and> is_list)"
    by auto
  have first: "call_getter lib g cm key is_list is_optional is_secret is_local dflt options =
        (Inl (ConfigurationError (NoValue key)), cm)"
    if "\<not> is_optional"
    using that single dict lst cases by auto
  have plain: "fst (call_getter lib g cm key is_list is_optional is_secret is_local dflt options)
                 = Inr dflt"
    if "is_optional" "g = GetList \<or> (\<not> is_list \<and> g \<noteq> GetDict)"
    using that single by simp
  have falsy: "fst (call_getter lib g cm key is_list is_optional is_secret is_local dflt options)
                 = Inr dflt"
    if "is_optional" "\<not> truthy dflt"
    using that single dict lst cases by auto
  have mapping: "fst (call_getter lib g cm key is_list is_optional is_secret is_local dflt
                        options) = Inr dflt"
    if "is_optional" "g = GetDict" "\<not> is_list" "isinstance dflt TMapping"
    using that dict by simp
  have converted: "fst (call_getter lib g cm key is_list is_optional is_secret is_local dflt
                          options) = Inr (VList (map (element_value (converter_of lib g)) vs))"
    if "is_optional" "g \<noteq> GetList" "is_list" "dflt = VList vs"
       "list_all (element_ok (target_of g) (converter_of lib g)) vs" for vs
  proof -
    from that(5)
    have loop: "convert_loop key (target_of g) (converter_of lib g) [] vs =
                  Inr (map (element_value (converter_of lib g)) vs)"
      by (simp add: convert_loop_ok)
    from that(1-4) lst loop show ?thesis
      by (auto simp del: convert_loop.simps)
  qed
  have kept: "fst (call_getter lib g cm key is_list is_optional is_secret is_local dflt options)
                = Inr dflt"
    if "is_optional" "g \<noteq> GetList" "is_list" "dflt = VList vs"
       "list_all (\<lambda>v. element_ok (target_of g) (converter_of lib g) v \<and>
                      element_value (converter_of lib g) v = v) vs" for vs
  proof -
    from that(5) have ok: "list_all (element_ok (target_of g) (converter_of lib g)) vs"
      by (induction vs) simp_all
    from that(5) have "map (element_value (converter_of lib g)) vs = vs"
      by (induction vs) simp_all
    with converted [OF that(1-4) ok] that(4) show ?thesis
      by simp
  qed
  have native: "fst (call_getter lib g cm key is_list is_optional is_secret is_local dflt
                       options) = Inr dflt"
    if "is_optional" "g \<noteq> GetList" "is_list" "dflt = VList vs"
       "list_all (\<lambda>v. \<not> is_str v \<and> isinstance v (target_of g)) vs" for vs
  proof -
    from that(5)
    have "list_all (\<lambda>v. element_ok (target_of g) (converter_of lib g) v \<and>
                        element_value (converter_of lib g) v = v) vs"
      by (induction vs) (simp_all add: element_ok_native element_value_native)
    with that(1-4) show ?thesis
      by (rule kept)
  qed
  have strings: "fst (call_getter lib g cm key is_list is_optional is_secret is_local dflt
                        options) = Inr dflt"
    if "is_optional" "g = GetString" "is_list" "dflt = VList vs" "list_all is_str vs" for vs
  proof -
    have one: "element_ok TStr str_convert v \<and> element_value str_convert v = v" if "is_str v"
      for v
      using that by (cases v) (simp_all add: is_str_def element_ok_def element_value_def
                                 str_convert_def)
    from that(5)
    have "list_all (\<lambda>v. element_ok (target_of g) (converter_of lib g) v \<and>
                        element_value (converter_of lib g) v = v) vs"
      using that(2) one by (induction vs) simp_all
    moreover from that(2) have "g \<noteq> GetList"
      by simp
    ultimately show ?thesis
      using that(1,3,4) kept by blast
  qed
  have malformed: "fst (call_getter lib g cm key is_list is_optional is_secret is_local dflt
                          options) =
                   Inl (ConfigurationError
                          (CannotConvertInList v key (raise_type_of (target_of g))))"
    if "is_optional" "g \<noteq> GetList" "is_list" "dflt = VList (pre @ v # post)"
       "list_all (element_ok (target_of g) (converter_of lib g)) pre"
       "element_malformed (target_of g) (converter_of lib g) v" for pre v post
  proof -
    from that(6) have "convert_element key (target_of g) (converter_of lib g) v =
        Inl (ConfigurationError (CannotConvertInList v key (raise_type_of (target_of g))))"
      by (rule convert_element_malformed)
    with that(5)
    have "convert_loop key (target_of g) (converter_of lib g) [] (pre @ v # post) =
        Inl (ConfigurationError (CannotConvertInList v key (raise_type_of (target_of g))))"
      by (rule convert_loop_first_bad)
    with that(1-4) lst show ?thesis
      by simp
  qed
  have no_list: "fst (call_getter lib g cm key is_list is_optional is_secret is_local dflt
                        options) =
                 Inl (ConfigurationError (CannotConvert dflt key (raise_type_of (target_of g))))"
    if "is_optional" "g \<noteq> GetList" "is_list" "truthy dflt" "\<not> isinstance dflt TList"
    using that lst by (cases dflt) simp_all
  have no_mapping: "fst (call_getter lib g cm key is_list is_optional is_secret is_local dflt
                           options) = Inl (ConfigurationError (CannotConvert dflt key DictLit))"
    if "is_optional" "g = GetDict" "\<not> is_list" "truthy dflt" "\<not> isinstance dflt TMapping"
    using that dict by simp
  show ?thesis
    by (intro conjI impI allI; (elim conjE)?;
        (rule state
         | (rule first; assumption)
         | (rule plain; assumption)
         | (rule falsy; assumption)
         | (rule mapping; assumption)
         | (rule strings; assumption)
         | (rule native; assumption)
         | (rule kept; assumption)
         | (rule converted; assumption)
         | (rule malformed; assumption)
         | (rule no_list; assumption)
         | (rule no_mapping; assumption)))
qed


theorem absent_key_behaviour_witness:
  "params (init Map.empty) ''k'' = None \<and>
   call_getter sample_lib GetInt (init Map.empty) ''k'' False False False False VNone None =
     (Inl (ConfigurationError (NoValue ''k'')), init Map.empty) \<and>
   call_getter sample_lib GetInt (init Map.empty) ''k'' False True False False (VInt 7) None =
     (Inr (VInt 7), init Map.empty) \<and>
   list_all is_str [VStr ''a'', VStr ''b''] \<and>
   call_getter sample_lib GetString (init Map.empty) ''k'' True True False False
     (VList [VStr ''a'', VStr ''b'']) None =
     (Inr (VList [VStr ''a'', VStr ''b'']), init Map.empty)"
proof -
  have p: "params (init Map.empty) ''k'' = None"
    by (simp add: init_def)
  have d: "GetInt \<noteq> GetDict"
    by simp
  have strs: "list_all is_str [VStr ''a'', VStr ''b'']"
    by (simp add: is_str_def)
  have missing:
    "call_getter sample_lib GetInt (init Map.empty) ''k'' False False False False VNone None =
       (Inl (ConfigurationError (NoValue ''k'')), init Map.empty)"
    using absent_key_behaviour [OF p, of False sample_lib GetInt False False False VNone None]
    by blast
  have "fst (call_getter sample_lib GetInt (init Map.empty) ''k'' False True False False
               (VInt 7) None) = Inr (VInt 7)"
    and "snd (call_getter sample_lib GetInt (init Map.empty) ''k'' False True False False
                (VInt 7) None) = init Map.empty"
    using absent_key_behaviour [OF p, of True sample_lib GetInt False False False "VInt 7" None]
      d
    by blast+
  then have single:
    "call_getter sample_lib GetInt (init Map.empty) ''k'' False True False False (VInt 7) None =
       (Inr (VInt 7), init Map.empty)"
    by (simp add: prod_eq_iff)
  have "fst (call_getter sample_lib GetString (init Map.empty) ''k'' True True False False
               (VList [VStr ''a'', VStr ''b'']) None) = Inr (VList [VStr ''a'', VStr ''b''])"
    and "snd (call_getter sample_lib GetString (init Map.empty) ''k'' True True False False
                (VList [VStr ''a'', VStr ''b'']) None) = init Map.empty"
    using absent_key_behaviour
            [OF p, of True sample_lib GetString True False False
                "VList [VStr ''a'', VStr ''b'']" None]
      strs
    by blast+
  then have listed:
    "call_getter sample_lib GetString (init Map.empty) ''k'' True True False False
       (VList [VStr ''a'', VStr ''b'']) None =
       (Inr (VList [VStr ''a'', VStr ''b'']), init Map.empty)"
    by (simp add: prod_eq_iff)
  from p strs missing single listed show ?thesis
    by blast
qed

text \<open>
  The claim as stated fails for the list forms and for \<open>get_dict\<close>, which treat a truthy
  default as they treat a fetched value: \<open>get_int\<close> with \<open>is_list\<close> and the default
  \<open>["1"]\<close> returns \<open>[1]\<close>, and \<open>get_dict\<close> with the default \<open>5\<close> raises.
\<close>

theorem default_not_returned_unchanged:
  "params (init Map.empty) ''k'' = None \<and>
   fst (get_int sample_lib (init Map.empty) ''k'' True True False False (VList [VStr ''1''])
          None) = Inr (VList [VInt 1]) \<and>
   VList [VInt 1] \<noteq> VList [VStr ''1''] \<and>
   fst (get_dict sample_lib (init Map.empty) ''k'' False True False False (VInt 5) None) =
     Inl (ConfigurationError (CannotConvert (VInt 5) ''k'' DictLit))"
  by (simp add: init_def get_int_def get_dict_def get_typed_list_value_def get_typed_value_def
        get_def convert_element_def int_convert_def sample_lib_def)

section \<open>Options and stored strings\<close>

lemma py_in_str: "py_in (VStr s) os \<longleftrightarrow> VStr s \<in> set os"
  by (auto simp: py_in_def list_ex_iff)

lemma converter_errors:
  "converter_of lib g s = Inl e \<Longrightarrow>
   e = ValueError \<or> e = ConfigurationError (InvalidUriSpec s) \<or>
   e = ConfigurationError (InvalidUserPass s)"
  by (cases g)
     (auto simp: int_convert_def float_convert_def bool_convert_def strtobool_def Let_def
        str_convert_def convert_to_dict_def json_convert_def parse_list_def parse_uri_spec_cases
        split: option.splits if_splits sum.splits)

lemma convert_to_dict_mapping:
  "convert_to_dict lib s = Inr v \<Longrightarrow> isinstance v TMapping"
  by (auto simp: convert_to_dict_def split: sum.splits if_splits)

lemma get_typed_value_string:
  "params cm key = Some (VStr s) \<Longrightarrow>
   fst (get_typed_value cm key T conv is_optional is_secret is_local dflt options) =
     (case check_options key (VStr s) options of
        Inl e \<Rightarrow> Inl e
      | Inr _ \<Rightarrow>
          (case conv s of
             Inl e \<Rightarrow> Inl (except_value_error (VStr s) key T e)
           | Inr v \<Rightarrow> Inr v))"
  by (auto simp: get_typed_value_def get_def Let_def check_options_def except_value_error_def
        split: sum.splits option.splits)

lemma call_getter_string:
  assumes "params cm key = Some (VStr s)"
  shows "fst (call_getter lib g cm key False is_optional is_secret is_local dflt options) =
     (case check_options key (VStr s) options of
        Inl e \<Rightarrow> Inl e
      | Inr _ \<Rightarrow>
          (case converter_of lib g s of
             Inl e \<Rightarrow> Inl (except_value_error (VStr s) key (target_of g) e)
           | Inr v \<Rightarrow> Inr (if g = GetDict \<and> \<not> truthy v then dflt else v)))"
proof (cases "g = GetDict")
  case True
  have "fst (get_dict lib cm key False is_optional is_secret is_local dflt options) =
        (case fst (get_typed_value cm key TMapping (convert_to_dict lib) is_optional is_secret
                     is_local dflt options) of
           Inl e \<Rightarrow> Inl e
         | Inr v \<Rightarrow>
             if \<not> truthy v then Inr dflt
             else if \<not> isinstance v TMapping
             then Inl (ConfigurationError (CannotConvert v key DictLit))
             else Inr v)"
    by (simp add: get_dict_def split: prod.splits sum.splits)
  with True assms show ?thesis
    by (auto simp: get_typed_value_string dest: convert_to_dict_mapping split: sum.splits)
next
  case False
  with assms show ?thesis
    by (simp add: call_getter_single_form get_typed_value_string split: sum.splits)
qed

text \<open>
  C3, as the code has it. A single-value getter called with a non-empty \<open>options\<close> on a key
  whose stored value is a string checks the stored string itself, before converting it: the
  call raises the options error exactly when the stored string is not a member of
  \<open>options\<close>. When the string converts, the call fails exactly in that case and otherwise
  returns the converted value (\<open>get_dict\<close>: the default, if the converted mapping is empty).
\<close>

theorem options_checked_on_stored_string:
  assumes "params cm key = Some (VStr s)" and "os \<noteq> []"
  shows
  "(VStr s \<notin> set os \<longrightarrow>
      fst (call_getter lib g cm key False is_optional is_secret is_local dflt (Some os)) =
        Inl (ConfigurationError (NotOneOf (VStr s) key))) \<and>
   (VStr s \<in> set os \<longrightarrow>
      fst (call_getter lib g cm key False is_optional is_secret is_local dflt (Some os)) \<noteq>
        Inl (ConfigurationError (NotOneOf (VStr s) key))) \<and>
   (\<forall>v. converter_of lib g s = Inr v \<longrightarrow>
      fst (call_getter lib g cm key False is_optional is_secret is_local dflt (Some os)) =
        (if VStr s \<in> set os then Inr (if g = GetDict \<and> \<not> truthy v then dflt else v)
         else Inl (ConfigurationError (NotOneOf (VStr s) key))))"
  using assms
  by (auto simp: call_getter_string check_options_def py_in_str except_value_error_def
        split: sum.splits dest: converter_errors)


theorem options_checked_on_stored_string_witness:
  "params (init [''X'' \<mapsto> VStr ''c'']) ''X'' = Some (VStr ''c'') \<and>
   [VStr ''a'', VStr ''b''] \<noteq> [] \<and>
   VStr ''c'' \<notin> set [VStr ''a'', VStr ''b''] \<and>
   fst (call_getter sample_lib GetString (init [''X'' \<mapsto> VStr ''c'']) ''X'' False False False
          False VNone (Some [VStr ''a'', VStr ''b''])) =
     Inl (ConfigurationError (NotOneOf (VStr ''c'') ''X''))"
proof -
  have p: "params (init [''X'' \<mapsto> VStr ''c'']) ''X'' = Some (VStr ''c'')"
    by (simp add: init_def)
  have n: "[VStr ''a'', VStr ''b''] \<noteq> []"
    by simp
  show ?thesis
    using p options_checked_on_stored_string
              [OF p n, of sample_lib GetString False False False VNone]
    by simp
qed

text \<open>
  The claim as stated fails: \<open>get_int\<close> on the stored string \<open>1\<close> with the options
  \<open>[1, 2]\<close> raises the options error, although the converted value \<open>1\<close> is a member.
\<close>

theorem options_not_checked_on_converted_value:
  "int_convert sample_lib ''1'' = Inr (VInt 1) \<and>
   py_in (VInt 1) [VInt 1, VInt 2] \<and>
   fst (get_int sample_lib (init [''X'' \<mapsto> VStr ''1'']) ''X'' False False False False VNone
          (Some [VInt 1, VInt 2])) =
     Inl (ConfigurationError (NotOneOf (VStr ''1'') ''X''))"
  by (simp add: int_convert_def sample_lib_def py_in_def get_int_def get_typed_value_def get_def
        init_def check_options_def except_value_error_def)

section \<open>Booleans\<close>

text \<open>
  C7, as the code has it. \<open>get_boolean\<close> on a stored string, without options, returns true
  when the string in lower case is one of \<open>y\<close>, \<open>yes\<close>, \<open>t\<close>, \<open>true\<close>, \<open>on\<close>, \<open>1\<close>, false
  when it is one of \<open>n\<close>, \<open>no\<close>, \<open>f\<close>, \<open>false\<close>, \<open>off\<close>, \<open>0\<close>, and raises the conversion
  error for every other string.
\<close>

theorem get_boolean_spellings:
  assumes "params cm key = Some (VStr s)" and "options = None \<or> options = Some []"
  shows
  "fst (get_boolean lib cm key False is_optional is_secret is_local dflt options) =
     (if str_lower s \<in> {''y'', ''yes'', ''t'', ''true'', ''on'', ''1''} then Inr (VBool True)
      else if str_lower s \<in> {''n'', ''no'', ''f'', ''false'', ''off'', ''0''}
      then Inr (VBool False)
      else Inl (ConfigurationError (CannotConvert (VStr s) key (TypeObj TBool))))"
  using assms
  by (auto simp: get_boolean_def get_typed_value_string check_options_def bool_convert_def
        strtobool_def Let_def except_value_error_def)

theorem get_boolean_spellings_witness:
  "params (init [''k'' \<mapsto> VStr ''yes'']) ''k'' = Some (VStr ''yes'') \<and>
   fst (get_boolean sample_lib (init [''k'' \<mapsto> VStr ''yes'']) ''k'' False False False False VNone
          None) = Inr (VBool True) \<and>
   params (init [''k'' \<mapsto> VStr ''0'']) ''k'' = Some (VStr ''0'') \<and>
   fst (get_boolean sample_lib (init [''k'' \<mapsto> VStr ''0'']) ''k'' False False False False VNone
          None) = Inr (VBool False) \<and>
   params (init [''k'' \<mapsto> VStr ''maybe'']) ''k'' = Some (VStr ''maybe'') \<and>
   fst (get_boolean sample_lib (init [''k'' \<mapsto> VStr ''maybe'']) ''k'' False False False False
          VNone None) =
     Inl (ConfigurationError (CannotConvert (VStr ''maybe'') ''k'' (TypeObj TBool)))"
proof -
  have a: "params (init [''k'' \<mapsto> VStr ''yes'']) ''k'' = Some (VStr ''yes'')"
    by (simp add: init_def)
  have b: "params (init [''k'' \<mapsto> VStr ''0'']) ''k'' = Some (VStr ''0'')"
    by (simp add: init_def)
  have c: "params (init [''k'' \<mapsto> VStr ''maybe'']) ''k'' = Some (VStr ''maybe'')"
    by (simp add: init_def)
  have o: "(None :: pyval list option) = None \<or> (None :: pyval list option) = Some []"
    by simp
  show ?thesis
    using a b c
      get_boolean_spellings [OF a o, of sample_lib False False False VNone]
      get_boolean_spellings [OF b o, of sample_lib False False False VNone]
      get_boolean_spellings [OF c o, of sample_lib False False False VNone]
    by (simp add: str_lower_def lower_char_def)
qed

text \<open>
  The claim as stated fails: \<open>on\<close>, \<open>TRUE\<close> and \<open>f\<close> are none of the six spellings it
  lists, and \<open>get_boolean\<close> returns a boolean for each of them.
\<close>

theorem get_boolean_accepts_on:
  "fst (get_boolean sample_lib (init [''k'' \<mapsto> VStr ''on'']) ''k'' False False False False VNone
          None) = Inr (VBool True) \<and>
   fst (get_boolean sample_lib (init [''k'' \<mapsto> VStr ''TRUE'']) ''k'' False False False False VNone
          None) = Inr (VBool True) \<and>
   fst (get_boolean sample_lib (init [''k'' \<mapsto> VStr ''f'']) ''k'' False False False False VNone
          None) = Inr (VBool False)"
  by (simp add: get_boolean_def get_typed_value_def get_def init_def check_options_def
        bool_convert_def strtobool_def str_lower_def lower_char_def)

section \<open>Dictionaries\<close>

text \<open>
  C10, as the code has it. \<open>get_dict\<close> (not in list form) on a key whose stored value is an
  empty mapping returns the default argument, not the stored mapping, and so it does for
  every falsy value the single-value engine hands back. For an absent optional key the return
  value is the same when the default is falsy or a mapping, and the call raises when the
  default is truthy and no mapping. The two cases differ in the resolver as well: the call on
  the present key records it (and checks the stored mapping against \<open>options\<close>), the call on
  the absent key leaves the resolver as it was.
\<close>

theorem get_dict_empty_returns_default:
  "(params cm key = Some (VDict []) \<and>
    (options = None \<or> options = Some [] \<or> (\<exists>os. options = Some os \<and> py_in (VDict []) os)) \<longrightarrow>
      get_dict lib cm key False is_optional is_secret is_local dflt options =
        (Inr dflt, add_key cm key is_secret is_local)) \<and>
   (\<forall>v. fst (get_typed_value cm key TMapping (convert_to_dict lib) is_optional is_secret
               is_local dflt options) = Inr v \<and> \<not> truthy v \<longrightarrow>
      fst (get_dict lib cm key False is_optional is_secret is_local dflt options) = Inr dflt) \<and>
   (params cm0 key = None \<and> (\<not> truthy dflt \<or> isinstance dflt TMapping) \<longrightarrow>
      fst (get_dict lib cm0 key False True is_secret is_local dflt options) = Inr dflt) \<and>
   (params cm0 key = None \<and> truthy dflt \<and> \<not> isinstance dflt TMapping \<longrightarrow>
      fst (get_dict lib cm0 key False True is_secret is_local dflt options) =
        Inl (ConfigurationError (CannotConvert dflt key DictLit))) \<and>
   (params cm0 key = None \<longrightarrow>
      snd (get_dict lib cm0 key False True is_secret is_local dflt options) = cm0) \<and>
   (params cm key = Some (VDict []) \<longrightarrow>
      snd (get_dict lib cm key False is_optional is_secret is_local dflt options) =
        add_key cm key is_secret is_local \<and>
      requested_keys
        (snd (get_dict lib cm key False is_optional is_secret is_local dflt options)) =
        insert key (requested_keys cm)) \<and>
   (\<forall>os. params cm key = Some (VDict []) \<and> options = Some os \<and> os \<noteq> [] \<and>
         \<not> py_in (VDict []) os \<longrightarrow>
      fst (get_dict lib cm key False is_optional is_secret is_local dflt options) =
        Inl (ConfigurationError (NotOneOf (VDict []) key)))"
proof -
  have present: "get_dict lib cm key False is_optional is_secret is_local dflt options =
        (Inr dflt, add_key cm key is_secret is_local)"
    if "params cm key = Some (VDict [])"
       "options = None \<or> options = Some [] \<or> (\<exists>os. options = Some os \<and> py_in (VDict []) os)"
    using that
    by (auto simp: get_dict_def get_typed_value_def get_def check_options_def Let_def)
  have falsy: "fst (get_dict lib cm key False is_optional is_secret is_local dflt options) =
        Inr dflt"
    if "fst (get_typed_value cm key TMapping (convert_to_dict lib) is_optional is_secret
               is_local dflt options) = Inr v" "\<not> truthy v" for v
    using that by (auto simp: get_dict_def split: prod.splits sum.splits)
  have absent: "fst (get_dict lib cm0 key False True is_secret is_local dflt options) = Inr dflt"
    if "params cm0 key = None" "\<not> truthy dflt \<or> isinstance dflt TMapping"
    using that by (auto simp: get_dict_absent)
  have raised: "fst (get_dict lib cm0 key False True is_secret is_local dflt options) =
        Inl (ConfigurationError (CannotConvert dflt key DictLit))"
    if "params cm0 key = None" "truthy dflt" "\<not> isinstance dflt TMapping"
    using that by (simp add: get_dict_absent)
  have untouched: "snd (get_dict lib cm0 key False True is_secret is_local dflt options) = cm0"
    if "params cm0 key = None"
    using that by (simp add: get_dict_absent)
  have recorded: "snd (get_dict lib cm key False is_optional is_secret is_local dflt options) =
        add_key cm key is_secret is_local"
    if "params cm key = Some (VDict [])"
    using that by (simp add: get_dict_state get_typed_value_state engine_target_def)
  have refused: "fst (get_dict lib cm key False is_optional is_secret is_local dflt options) =
        Inl (ConfigurationError (NotOneOf (VDict []) key))"
    if "params cm key = Some (VDict [])" "options = Some os" "os \<noteq> []"
       "\<not> py_in (VDict []) os" for os
    using that by (simp add: get_dict_def get_typed_value_def get_def check_options_def Let_def)
  have requested: "requested_keys
        (snd (get_dict lib cm key False is_optional is_secret is_local dflt options)) =
        insert key (requested_keys cm)"
    if "params cm key = Some (VDict [])"
    using recorded [OF that] by simp
  show ?thesis
    by (intro conjI impI allI; (elim conjE)?;
        ((rule present; assumption)
         | (rule falsy; assumption)
         | (rule absent; assumption)
         | (rule raised; assumption)
         | (rule untouched; assumption)
         | (rule recorded; assumption)
         | (rule requested; assumption)
         | (rule refused; assumption)))
qed

theorem get_dict_empty_returns_default_witness:
  "params (init [''k'' \<mapsto> VDict []]) ''k'' = Some (VDict []) \<and>
   get_dict sample_lib (init [''k'' \<mapsto> VDict []]) ''k'' False True False False
     (VDict [(''a'', VInt 1)]) None =
     (Inr (VDict [(''a'', VInt 1)]), add_key (init [''k'' \<mapsto> VDict []]) ''k'' False False) \<and>
   params (init Map.empty) ''k'' = None \<and>
   isinstance (VDict [(''a'', VInt 1)]) TMapping \<and>
   fst (get_dict sample_lib (init Map.empty) ''k'' False True False False
          (VDict [(''a'', VInt 1)]) None) = Inr (VDict [(''a'', VInt 1)]) \<and>
   snd (get_dict sample_lib (init Map.empty) ''k'' False True False False
          (VDict [(''a'', VInt 1)]) None) = init Map.empty"
proof -
  have p: "params (init [''k'' \<mapsto> VDict []]) ''k'' = Some (VDict [])"
    by (simp add: init_def)
  have q: "params (init Map.empty) ''k'' = None"
    by (simp add: init_def)
  have m: "isinstance (VDict [(''a'', VInt 1)]) TMapping"
    by simp
  note t = get_dict_empty_returns_default
             [of "init [''k'' \<mapsto> VDict []]" "''k''" None sample_lib True False False
                 "VDict [(''a'', VInt 1)]" "init Map.empty"]
  have r1: "get_dict sample_lib (init [''k'' \<mapsto> VDict []]) ''k'' False True False False
              (VDict [(''a'', VInt 1)]) None =
            (Inr (VDict [(''a'', VInt 1)]), add_key (init [''k'' \<mapsto> VDict []]) ''k'' False False)"
    using t p by blast
  have r2: "fst (get_dict sample_lib (init Map.empty) ''k'' False True False False
                   (VDict [(''a'', VInt 1)]) None) = Inr (VDict [(''a'', VInt 1)])"
    using t q m by blast
  have r3: "snd (get_dict sample_lib (init Map.empty) ''k'' False True False False
                   (VDict [(''a'', VInt 1)]) None) = init Map.empty"
    using t q by blast
  from p q m r1 r2 r3 show ?thesis
    by blast
qed

text \<open>
  The claim as stated fails: with the default \<open>5\<close> the call on the stored empty mapping
  returns \<open>5\<close> and the call on the absent optional key raises; and with the default \<open>None\<close>,
  where both return \<open>None\<close>, the first call has recorded the key and the second has not, which
  \<open>get_requested_params\<close> shows.
\<close>

theorem get_dict_empty_differs_from_absent:
  "fst (get_dict sample_lib (init [''k'' \<mapsto> VDict []]) ''k'' False True False False (VInt 5)
          None) = Inr (VInt 5) \<and>
   fst (get_dict sample_lib (init Map.empty) ''k'' False True False False (VInt 5) None) =
     Inl (ConfigurationError (CannotConvert (VInt 5) ''k'' DictLit)) \<and>
   fst (get_dict sample_lib (init [''k'' \<mapsto> VDict []]) ''k'' False True False False VNone None)
     = Inr VNone \<and>
   fst (get_dict sample_lib (init Map.empty) ''k'' False True False False VNone None) = Inr VNone \<and>
   requested_keys
     (snd (get_dict sample_lib (init [''k'' \<mapsto> VDict []]) ''k'' False True False False VNone
             None)) = {''k''} \<and>
   requested_keys
     (snd (get_dict sample_lib (init Map.empty) ''k'' False True False False VNone None)) = {}"
  by (simp add: get_dict_def get_typed_value_def get_def init_def check_options_def)

section \<open>The list engine's results\<close>

text \<open>
  C6. Let the list engine's fetch through the single-value engine (class \<open>list\<close>, converter
  \<open>json.loads\<close>) return a value. If that value is falsy, the engine returns the default as it
  is, list or not. If it is a non-empty list whose elements are all acceptable, the engine
  returns the list of the same length and order in which every string is replaced by its
  conversion and every object of the target class is kept. If an element is a string the
  converter rejects with \<open>ValueError\<close>, or neither a string nor of the target class, and
  the elements before it are acceptable, the engine raises the \<open>ConfigurationError\<close> that
  names this element. A \<open>ConfigurationError\<close> raised by the converter itself passes through,
  and a truthy value that is no list raises the error of the whole value.
\<close>

theorem typed_list_engine:
  assumes "get_typed_value cm key TList (json_convert lib) is_optional is_secret is_local dflt
             options = (Inr val, cm')"
  shows
  "(\<not> truthy val \<longrightarrow>
      get_typed_list_value lib cm key T conv is_optional is_secret is_local dflt options =
        (Inr dflt, cm')) \<and>
   (\<forall>vs. val = VList vs \<and> vs \<noteq> [] \<and> list_all (element_ok T conv) vs \<longrightarrow>
      get_typed_list_value lib cm key T conv is_optional is_secret is_local dflt options =
        (Inr (VList (map (element_value conv) vs)), cm')) \<and>
   (\<forall>pre v post. val = VList (pre @ v # post) \<and> list_all (element_ok T conv) pre \<and>
        element_malformed T conv v \<longrightarrow>
      get_typed_list_value lib cm key T conv is_optional is_secret is_local dflt options =
        (Inl (ConfigurationError (CannotConvertInList v key (raise_type_of T))), cm')) \<and>
   (\<forall>pre s post e. val = VList (pre @ VStr s # post) \<and> list_all (element_ok T conv) pre \<and>
        conv s = Inl e \<and> e \<noteq> ValueError \<longrightarrow>
      get_typed_list_value lib cm key T conv is_optional is_secret is_local dflt options =
        (Inl e, cm')) \<and>
   (truthy val \<and> \<not> isinstance val TList \<longrightarrow>
      get_typed_list_value lib cm key T conv is_optional is_secret is_local dflt options =
        (Inl (ConfigurationError (CannotConvert val key (raise_type_of T))), cm'))"
proof -
  have falsy: "get_typed_list_value lib cm key T conv is_optional is_secret is_local dflt options
                 = (Inr dflt, cm')" if "\<not> truthy val"
    using assms that by (simp add: get_typed_list_value_def)
  have good: "get_typed_list_value lib cm key T conv is_optional is_secret is_local dflt options
                = (Inr (VList (map (element_value conv) vs)), cm')"
    if "val = VList vs" "vs \<noteq> []" "list_all (element_ok T conv) vs" for vs
    using assms that by (simp add: get_typed_list_value_def convert_loop_ok)
  have bad: "get_typed_list_value lib cm key T conv is_optional is_secret is_local dflt options
               = (Inl (ConfigurationError (CannotConvertInList v key (raise_type_of T))), cm')"
    if "val = VList (pre @ v # post)" "list_all (element_ok T conv) pre"
       "element_malformed T conv v" for pre v post
  proof -
    from that(3) have "convert_element key T conv v =
        Inl (ConfigurationError (CannotConvertInList v key (raise_type_of T)))"
      by (rule convert_element_malformed)
    with that(2) have "convert_loop key T conv [] (pre @ v # post) =
        Inl (ConfigurationError (CannotConvertInList v key (raise_type_of T)))"
      by (rule convert_loop_first_bad)
    with assms that(1) show ?thesis
      by (simp add: get_typed_list_value_def)
  qed
  have raised: "get_typed_list_value lib cm key T conv is_optional is_secret is_local dflt
                  options = (Inl e, cm')"
    if "val = VList (pre @ VStr s # post)" "list_all (element_ok T conv) pre"
       "conv s = Inl e" "e \<noteq> ValueError" for pre s post e
  proof -
    from that(3,4) have "convert_element key T conv (VStr s) = Inl e"
      by (simp add: convert_element_def)
    with that(2) have "convert_loop key T conv [] (pre @ VStr s # post) = Inl e"
      by (rule convert_loop_first_bad)
    with assms that(1) show ?thesis
      by (simp add: get_typed_list_value_def)
  qed
  have shape: "get_typed_list_value lib cm key T conv is_optional is_secret is_local dflt
                 options = (Inl (ConfigurationError (CannotConvert val key (raise_type_of T))), cm')"
    if "truthy val" "\<not> isinstance val TList"
    using assms that by (cases val) (simp_all add: get_typed_list_value_def)
  from falsy good bad raised shape show ?thesis
    by blast
qed

theorem typed_list_engine_witness:
  "get_typed_value (init [''k'' \<mapsto> VStr ''[1,2,3]'']) ''k'' TList (json_convert sample_lib) False
     False False VNone None =
     (Inr (VList [VInt 1, VInt 2, VInt 3]),
      add_key (init [''k'' \<mapsto> VStr ''[1,2,3]'']) ''k'' False False) \<and>
   list_all (element_ok TInt (int_convert sample_lib)) [VInt 1, VInt 2, VInt 3] \<and>
   get_typed_list_value sample_lib (init [''k'' \<mapsto> VStr ''[1,2,3]'']) ''k'' TInt
     (int_convert sample_lib) False False False VNone None =
     (Inr (VList [VInt 1, VInt 2, VInt 3]),
      add_key (init [''k'' \<mapsto> VStr ''[1,2,3]'']) ''k'' False False) \<and>
   get_typed_value (init [''k'' \<mapsto> VStr ''[1,\"x\"]'']) ''k'' TList (json_convert sample_lib) False
     False False VNone None =
     (Inr (VList [VInt 1, VStr ''x'']),
      add_key (init [''k'' \<mapsto> VStr ''[1,\"x\"]'']) ''k'' False False) \<and>
   element_malformed TInt (int_convert sample_lib) (VStr ''x'') \<and>
   get_typed_list_value sample_lib (init [''k'' \<mapsto> VStr ''[1,\"x\"]'']) ''k'' TInt
     (int_convert sample_lib) False False False VNone None =
     (Inl (ConfigurationError (CannotConvertInList (VStr ''x'') ''k'' (TypeObj TInt))),
      add_key (init [''k'' \<mapsto> VStr ''[1,\"x\"]'']) ''k'' False False)"
proof -
  have f1: "get_typed_value (init [''k'' \<mapsto> VStr ''[1,2,3]'']) ''k'' TList
              (json_convert sample_lib) False False False VNone None =
            (Inr (VList [VInt 1, VInt 2, VInt 3]),
             add_key (init [''k'' \<mapsto> VStr ''[1,2,3]'']) ''k'' False False)"
    by (simp add: get_typed_value_def get_def init_def check_options_def json_convert_def
          sample_lib_def)
  have f2: "get_typed_value (init [''k'' \<mapsto> VStr ''[1,\"x\"]'']) ''k'' TList
              (json_convert sample_lib) False False False VNone None =
            (Inr (VList [VInt 1, VStr ''x'']),
             add_key (init [''k'' \<mapsto> VStr ''[1,\"x\"]'']) ''k'' False False)"
    by (simp add: get_typed_value_def get_def init_def check_options_def json_convert_def
          sample_lib_def)
  have ok: "list_all (element_ok TInt (int_convert sample_lib)) [VInt 1, VInt 2, VInt 3]"
    by (simp add: element_ok_def)
  have ok1: "list_all (element_ok TInt (int_convert sample_lib)) [VInt 1]"
    by (simp add: element_ok_def)
  have bad: "element_malformed TInt (int_convert sample_lib) (VStr ''x'')"
    by (simp add: element_malformed_def int_convert_def sample_lib_def)
  have vals: "map (element_value (int_convert sample_lib)) [VInt 1, VInt 2, VInt 3] =
              [VInt 1, VInt 2, VInt 3]"
    by (simp add: element_value_def)
  have split: "[VInt 1, VStr ''x''] = [VInt 1] @ VStr ''x'' # []"
    by simp
  have r1: "get_typed_list_value sample_lib (init [''k'' \<mapsto> VStr ''[1,2,3]'']) ''k'' TInt
     (int_convert sample_lib) False False False VNone None =
     (Inr (VList (map (element_value (int_convert sample_lib)) [VInt 1, VInt 2, VInt 3])),
      add_key (init [''k'' \<mapsto> VStr ''[1,2,3]'']) ''k'' False False)"
    using typed_list_engine [OF f1, of TInt "int_convert sample_lib"] ok by blast
  have r2: "get_typed_list_value sample_lib (init [''k'' \<mapsto> VStr ''[1,\"x\"]'']) ''k'' TInt
     (int_convert sample_lib) False False False VNone None =
     (Inl (ConfigurationError (CannotConvertInList (VStr ''x'') ''k'' (raise_type_of TInt))),
      add_key (init [''k'' \<mapsto> VStr ''[1,\"x\"]'']) ''k'' False False)"
    using typed_list_engine [OF f2, of TInt "int_convert sample_lib"] ok1 bad split by blast
  have rt: "raise_type_of TInt = TypeObj TInt"
    by (simp add: raise_type_of_def)
  from f1 f2 ok bad r1 r2 show ?thesis
    unfolding vals rt by blast
qed


section \<open>Decoding rounds\<close>

lemma decode_iterations_cached:
  "decode_iterations_cache cm = Some v \<Longrightarrow> decode_iterations lib cm = (Inr v, cm)"
  by (simp add: decode_iterations_def)

lemma decode_iterations_default:
  "decode_iterations_cache cm = None \<Longrightarrow> params cm ''_POLYAXON_DECODE_ITERATION'' = None \<Longrightarrow>
   decode_iterations lib cm = (Inr (VInt 1), cm\<lparr>decode_iterations_cache := Some (VInt 1)\<rparr>)"
  by (simp add: decode_iterations_def get_int_def get_typed_value_absent)

lemma decode_iterations_native:
  "decode_iterations_cache cm = None \<Longrightarrow>
   params cm ''_POLYAXON_DECODE_ITERATION'' = Some v \<Longrightarrow> \<not> is_str v \<Longrightarrow> isinstance v TInt \<Longrightarrow>
   decode_iterations lib cm =
     (Inr v, (add_key cm ''_POLYAXON_DECODE_ITERATION'' False False)
               \<lparr>decode_iterations_cache := Some v\<rparr>)"
  by (cases v)
     (simp_all add: decode_iterations_def get_int_def get_typed_value_def get_def
        check_options_def is_str_def Let_def)

lemma decode_iterations_string:
  "decode_iterations_cache cm = None \<Longrightarrow>
   params cm ''_POLYAXON_DECODE_ITERATION'' = Some (VStr s) \<Longrightarrow>
   decode_iterations lib cm =
     (case py_int lib s of
        None \<Rightarrow>
          (Inl (ConfigurationError
                  (CannotConvert (VStr s) ''_POLYAXON_DECODE_ITERATION'' (TypeObj TInt))),
           add_key cm ''_POLYAXON_DECODE_ITERATION'' False False)
      | Some n \<Rightarrow>
          (Inr (VInt n), (add_key cm ''_POLYAXON_DECODE_ITERATION'' False False)
                           \<lparr>decode_iterations_cache := Some (VInt n)\<rparr>))"
  by (simp add: decode_iterations_def get_int_def get_typed_value_def get_def check_options_def
        int_convert_def except_value_error_def Let_def split: option.splits)

lemma decode_iterations_wrong_class:
  "decode_iterations_cache cm = None \<Longrightarrow>
   params cm ''_POLYAXON_DECODE_ITERATION'' = Some v \<Longrightarrow> \<not> is_str v \<Longrightarrow> \<not> isinstance v TInt \<Longrightarrow>
   decode_iterations lib cm =
     (Inl (ConfigurationError (WrongShape ''_POLYAXON_DECODE_ITERATION'' v TInt)), cm)"
  by (cases v)
     (simp_all add: decode_iterations_def get_int_def get_typed_value_def get_def is_str_def)

lemma decode_falsy:
  "\<not> truthy it \<Longrightarrow>
   decode lib cm val (Some it) =
     (case decode_iterations lib cm of
        (Inl e, cm') \<Rightarrow> (Inl e, cm')
      | (Inr n, cm') \<Rightarrow>
          (case range_rounds n of
             Inl e \<Rightarrow> (Inl e, cm')
           | Inr k \<Rightarrow> (decode_loop lib k val, cm')))"
  by (simp add: decode_def)

text \<open>
  C2, as the code has it. Called without an iteration count, \<open>_decode\<close> runs the decoding
  loop for three rounds, the default of its signature, and does not consult
  \<open>decode_iterations\<close>. Called with a non-zero count it runs that many rounds. Called with a
  falsy count (\<open>None\<close> or \<open>0\<close>) it runs as many rounds as \<open>decode_iterations\<close> says.
  \<open>decode_iterations\<close> is the cached value once there is one. Before that it is \<open>get_int\<close> of
  the key \<open>_POLYAXON_DECODE_ITERATION\<close>: 1 when the key is absent, the stored integer (or
  boolean) when there is one, the conversion by \<open>int\<close> of a stored string, and an error
  when the string does not convert or the stored value is of another class; a value so
  obtained is cached and the present key recorded. A round that fails ends the loop with its
  error.
\<close>

theorem decode_rounds:
  "decode lib cm val None = (decode_loop lib 3 val, cm) \<and>
   (\<forall>n. n \<noteq> 0 \<longrightarrow> decode lib cm val (Some (VInt n)) = (decode_loop lib (nat n) val, cm)) \<and>
   (\<forall>it n cm'. \<not> truthy it \<and> decode_iterations lib cm = (Inr (VInt n), cm') \<longrightarrow>
      decode lib cm val (Some it) = (decode_loop lib (nat n) val, cm')) \<and>
   (\<forall>it. \<not> truthy it \<and> decode_iterations_cache cm = None \<and>
        params cm ''_POLYAXON_DECODE_ITERATION'' = None \<longrightarrow>
      decode lib cm val (Some it) =
        (decode_loop lib 1 val, cm\<lparr>decode_iterations_cache := Some (VInt 1)\<rparr>)) \<and>
   (\<forall>v. decode_iterations_cache cm = Some v \<longrightarrow> decode_iterations lib cm = (Inr v, cm)) \<and>
   (decode_iterations_cache cm = None \<and> params cm ''_POLYAXON_DECODE_ITERATION'' = None \<longrightarrow>
      decode_iterations lib cm =
        (Inr (VInt 1), cm\<lparr>decode_iterations_cache := Some (VInt 1)\<rparr>)) \<and>
   (\<forall>n. decode_iterations_cache cm = None \<and>
        params cm ''_POLYAXON_DECODE_ITERATION'' = Some (VInt n) \<longrightarrow>
      decode_iterations lib cm =
        (Inr (VInt n), (add_key cm ''_POLYAXON_DECODE_ITERATION'' False False)
                         \<lparr>decode_iterations_cache := Some (VInt n)\<rparr>)) \<and>
   (\<forall>b. decode_iterations_cache cm = None \<and>
        params cm ''_POLYAXON_DECODE_ITERATION'' = Some (VBool b) \<longrightarrow>
      decode_iterations lib cm =
        (Inr (VBool b), (add_key cm ''_POLYAXON_DECODE_ITERATION'' False False)
                          \<lparr>decode_iterations_cache := Some (VBool b)\<rparr>)) \<and>
   (\<forall>s n. decode_iterations_cache cm = None \<and>
        params cm ''_POLYAXON_DECODE_ITERATION'' = Some (VStr s) \<and> py_int lib s = Some n \<longrightarrow>
      decode_iterations lib cm =
        (Inr (VInt n), (add_key cm ''_POLYAXON_DECODE_ITERATION'' False False)
                         \<lparr>decode_iterations_cache := Some (VInt n)\<rparr>)) \<and>
   (\<forall>s. decode_iterations_cache cm = None \<and>
        params cm ''_POLYAXON_DECODE_ITERATION'' = Some (VStr s) \<and> py_int lib s = None \<longrightarrow>
      decode_iterations lib cm =
        (Inl (ConfigurationError
                (CannotConvert (VStr s) ''_POLYAXON_DECODE_ITERATION'' (TypeObj TInt))),
         add_key cm ''_POLYAXON_DECODE_ITERATION'' False False)) \<and>
   (\<forall>v. decode_iterations_cache cm = None \<and>
        params cm ''_POLYAXON_DECODE_ITERATION'' = Some v \<and> \<not> is_str v \<and>
        \<not> isinstance v TInt \<longrightarrow>
      decode_iterations lib cm =
        (Inl (ConfigurationError (WrongShape ''_POLYAXON_DECODE_ITERATION'' v TInt)), cm)) \<and>
   (\<forall>it n. \<not> truthy it \<and> decode_iterations_cache cm = None \<and>
        params cm ''_POLYAXON_DECODE_ITERATION'' = Some (VInt n) \<longrightarrow>
      decode lib cm val (Some it) =
        (decode_loop lib (nat n) val,
         (add_key cm ''_POLYAXON_DECODE_ITERATION'' False False)
           \<lparr>decode_iterations_cache := Some (VInt n)\<rparr>)) \<and>
   (\<forall>it s n. \<not> truthy it \<and> decode_iterations_cache cm = None \<and>
        params cm ''_POLYAXON_DECODE_ITERATION'' = Some (VStr s) \<and> py_int lib s = Some n \<longrightarrow>
      decode lib cm val (Some it) =
        (decode_loop lib (nat n) val,
         (add_key cm ''_POLYAXON_DECODE_ITERATION'' False False)
           \<lparr>decode_iterations_cache := Some (VInt n)\<rparr>)) \<and>
   (\<forall>it n. \<not> truthy it \<and> decode_iterations_cache cm = Some (VInt n) \<longrightarrow>
      decode lib cm val (Some it) = (decode_loop lib (nat n) val, cm)) \<and>
   (\<forall>it e cm'. \<not> truthy it \<and> decode_iterations lib cm = (Inl e, cm') \<longrightarrow>
      decode lib cm val (Some it) = (Inl e, cm'))"
proof -
  have omitted: "decode lib cm val None = (decode_loop lib 3 val, cm)"
    by (simp add: decode_def)
  have given: "decode lib cm val (Some (VInt n)) = (decode_loop lib (nat n) val, cm)"
    if "n \<noteq> 0" for n
    using that by (simp add: decode_def)
  have follows: "decode lib cm val (Some it) = (decode_loop lib (nat n) val, cm')"
    if "\<not> truthy it" "decode_iterations lib cm = (Inr (VInt n), cm')" for it n cm'
    using that by (simp add: decode_falsy)
  have fails: "decode lib cm val (Some it) = (Inl e, cm')"
    if "\<not> truthy it" "decode_iterations lib cm = (Inl e, cm')" for it e cm'
    using that by (simp add: decode_falsy)
  have absent: "decode_iterations lib cm =
        (Inr (VInt 1), cm\<lparr>decode_iterations_cache := Some (VInt 1)\<rparr>)"
    if "decode_iterations_cache cm = None" "params cm ''_POLYAXON_DECODE_ITERATION'' = None"
    using that by (rule decode_iterations_default)
  have cached: "decode_iterations lib cm = (Inr v, cm)"
    if "decode_iterations_cache cm = Some v" for v
    using that by (rule decode_iterations_cached)
  have stored_int: "decode_iterations lib cm =
        (Inr (VInt n), (add_key cm ''_POLYAXON_DECODE_ITERATION'' False False)
                         \<lparr>decode_iterations_cache := Some (VInt n)\<rparr>)"
    if "decode_iterations_cache cm = None"
       "params cm ''_POLYAXON_DECODE_ITERATION'' = Some (VInt n)" for n
    using that by (simp add: decode_iterations_native is_str_def)
  have stored_bool: "decode_iterations lib cm =
        (Inr (VBool b), (add_key cm ''_POLYAXON_DECODE_ITERATION'' False False)
                          \<lparr>decode_iterations_cache := Some (VBool b)\<rparr>)"
    if "decode_iterations_cache cm = None"
       "params cm ''_POLYAXON_DECODE_ITERATION'' = Some (VBool b)" for b
    using that by (simp add: decode_iterations_native is_str_def)
  have stored_str: "decode_iterations lib cm =
        (Inr (VInt n), (add_key cm ''_POLYAXON_DECODE_ITERATION'' False False)
                         \<lparr>decode_iterations_cache := Some (VInt n)\<rparr>)"
    if "decode_iterations_cache cm = None"
       "params cm ''_POLYAXON_DECODE_ITERATION'' = Some (VStr s)" "py_int lib s = Some n"
    for s n
    using that by (simp add: decode_iterations_string)
  have bad_str: "decode_iterations lib cm =
        (Inl (ConfigurationError
                (CannotConvert (VStr s) ''_POLYAXON_DECODE_ITERATION'' (TypeObj TInt))),
         add_key cm ''_POLYAXON_DECODE_ITERATION'' False False)"
    if "decode_iterations_cache cm = None"
       "params cm ''_POLYAXON_DECODE_ITERATION'' = Some (VStr s)" "py_int lib s = None" for s
    using that by (simp add: decode_iterations_string)
  have wrong: "decode_iterations lib cm =
        (Inl (ConfigurationError (WrongShape ''_POLYAXON_DECODE_ITERATION'' v TInt)), cm)"
    if "decode_iterations_cache cm = None"
       "params cm ''_POLYAXON_DECODE_ITERATION'' = Some v" "\<not> is_str v" "\<not> isinstance v TInt"
    for v
    using that by (rule decode_iterations_wrong_class)
  have d_absent: "decode lib cm val (Some it) =
        (decode_loop lib 1 val, cm\<lparr>decode_iterations_cache := Some (VInt 1)\<rparr>)"
    if "\<not> truthy it" "decode_iterations_cache cm = None"
       "params cm ''_POLYAXON_DECODE_ITERATION'' = None" for it
    using follows [OF that(1) absent [OF that(2,3)]] by simp
  have d_int: "decode lib cm val (Some it) =
        (decode_loop lib (nat n) val,
         (add_key cm ''_POLYAXON_DECODE_ITERATION'' False False)
           \<lparr>decode_iterations_cache := Some (VInt n)\<rparr>)"
    if "\<not> truthy it" "decode_iterations_cache cm = None"
       "params cm ''_POLYAXON_DECODE_ITERATION'' = Some (VInt n)" for it n
    using follows [OF that(1) stored_int [OF that(2,3)]] .
  have d_str: "decode lib cm val (Some it) =
        (decode_loop lib (nat n) val,
         (add_key cm ''_POLYAXON_DECODE_ITERATION'' False False)
           \<lparr>decode_iterations_cache := Some (VInt n)\<rparr>)"
    if "\<not> truthy it" "decode_iterations_cache cm = None"
       "params cm ''_POLYAXON_DECODE_ITERATION'' = Some (VStr s)" "py_int lib s = Some n"
    for it s n
    using follows [OF that(1) stored_str [OF that(2,3,4)]] .
  have d_cached: "decode lib cm val (Some it) = (decode_loop lib (nat n) val, cm)"
    if "\<not> truthy it" "decode_iterations_cache cm = Some (VInt n)" for it n
    using follows [OF that(1) cached [OF that(2)]] .
  show ?thesis
    by (intro conjI impI allI; (elim conjE)?;
        (rule omitted
         | (rule given; assumption)
         | (rule d_absent; assumption)
         | (rule d_int; assumption)
         | (rule d_str; assumption)
         | (rule d_cached; assumption)
         | (rule follows; assumption)
         | (rule fails; assumption)
         | (rule cached; assumption)
         | (rule absent; assumption)
         | (rule stored_int; assumption)
         | (rule stored_bool; assumption)
         | (rule stored_str; assumption)
         | (rule bad_str; assumption)
         | (rule wrong; assumption)))
qed

theorem decode_rounds_witness:
  "\<not> truthy VNone \<and> decode_iterations_cache (init Map.empty) = None \<and>
   params (init Map.empty) ''_POLYAXON_DECODE_ITERATION'' = None \<and>
   fst (decode sample_lib (init Map.empty) ''V1ZFOVBRPT0='' (Some VNone)) = Inr ''WVE9PQ=='' \<and>
   decode_iterations_cache (init [''_POLYAXON_DECODE_ITERATION'' \<mapsto> VInt 2]) = None \<and>
   params (init [''_POLYAXON_DECODE_ITERATION'' \<mapsto> VInt 2]) ''_POLYAXON_DECODE_ITERATION'' =
     Some (VInt 2) \<and>
   fst (decode_iterations sample_lib (init [''_POLYAXON_DECODE_ITERATION'' \<mapsto> VInt 2])) =
     Inr (VInt 2) \<and>
   fst (decode sample_lib (init [''_POLYAXON_DECODE_ITERATION'' \<mapsto> VInt 2]) ''V1ZFOVBRPT0=''
          (Some VNone)) = Inr ''YQ=='' \<and>
   params (init [''_POLYAXON_DECODE_ITERATION'' \<mapsto> VStr ''1'']) ''_POLYAXON_DECODE_ITERATION'' =
     Some (VStr ''1'') \<and>
   py_int sample_lib ''1'' = Some 1 \<and>
   fst (decode_iterations sample_lib (init [''_POLYAXON_DECODE_ITERATION'' \<mapsto> VStr ''1''])) =
     Inr (VInt 1)"
proof -
  let ?two = "init [''_POLYAXON_DECODE_ITERATION'' \<mapsto> VInt 2]"
  let ?one = "init [''_POLYAXON_DECODE_ITERATION'' \<mapsto> VStr ''1'']"
  have a: "\<not> truthy VNone" by simp
  have b: "decode_iterations_cache (init Map.empty) = None" by (simp add: init_def)
  have c: "params (init Map.empty) ''_POLYAXON_DECODE_ITERATION'' = None" by (simp add: init_def)
  have d: "decode_loop sample_lib 1 ''V1ZFOVBRPT0='' = Inr ''WVE9PQ==''"
    by (simp add: sample_lib_def)
  have b2: "decode_iterations_cache ?two = None" by (simp add: init_def)
  have c2: "params ?two ''_POLYAXON_DECODE_ITERATION'' = Some (VInt 2)" by (simp add: init_def)
  have d2: "decode_loop sample_lib (nat 2) ''V1ZFOVBRPT0='' = Inr ''YQ==''"
    by (simp add: sample_lib_def eval_nat_numeral)
  have b3: "decode_iterations_cache ?one = None" by (simp add: init_def)
  have c3: "params ?one ''_POLYAXON_DECODE_ITERATION'' = Some (VStr ''1'')" by (simp add: init_def)
  have p3: "py_int sample_lib ''1'' = Some 1" by (simp add: sample_lib_def)
  have r1: "decode sample_lib (init Map.empty) ''V1ZFOVBRPT0='' (Some VNone) =
              (decode_loop sample_lib 1 ''V1ZFOVBRPT0='',
               (init Map.empty)\<lparr>decode_iterations_cache := Some (VInt 1)\<rparr>)"
    using decode_rounds [of sample_lib "init Map.empty" "''V1ZFOVBRPT0=''"] a b c by blast
  have r2: "decode_iterations sample_lib ?two =
              (Inr (VInt 2), (add_key ?two ''_POLYAXON_DECODE_ITERATION'' False False)
                               \<lparr>decode_iterations_cache := Some (VInt 2)\<rparr>)"
    using decode_rounds [of sample_lib ?two "''V1ZFOVBRPT0=''"] b2 c2 by blast
  have r3: "decode sample_lib ?two ''V1ZFOVBRPT0='' (Some VNone) =
              (decode_loop sample_lib (nat 2) ''V1ZFOVBRPT0='',
               (add_key ?two ''_POLYAXON_DECODE_ITERATION'' False False)
                 \<lparr>decode_iterations_cache := Some (VInt 2)\<rparr>)"
    using decode_rounds [of sample_lib ?two "''V1ZFOVBRPT0=''"] a b2 c2 by blast
  have r4: "decode_iterations sample_lib ?one =
              (Inr (VInt 1), (add_key ?one ''_POLYAXON_DECODE_ITERATION'' False False)
                               \<lparr>decode_iterations_cache := Some (VInt 1)\<rparr>)"
    using decode_rounds [of sample_lib ?one "''V1ZFOVBRPT0=''"] b3 c3 p3 by blast
  have f1: "fst (decode sample_lib (init Map.empty) ''V1ZFOVBRPT0='' (Some VNone)) =
              Inr ''WVE9PQ==''"
    by (simp only: r1 fst_conv d)
  have f2: "fst (decode_iterations sample_lib ?two) = Inr (VInt 2)"
    by (simp only: r2 fst_conv)
  have f3: "fst (decode sample_lib ?two ''V1ZFOVBRPT0='' (Some VNone)) = Inr ''YQ==''"
    by (simp only: r3 fst_conv d2)
  have f4: "fst (decode_iterations sample_lib ?one) = Inr (VInt 1)"
    by (simp only: r4 fst_conv)
  from a b c f1 b2 c2 f2 f3 c3 p3 f4 show ?thesis
    by (intro conjI)
qed

text \<open>
  The claim as stated fails: on a resolver without the key, \<open>decode_iterations\<close> is 1 and one
  round turns the text into \<open>WVE9PQ==\<close>, but \<open>_decode\<close> without a count returns \<open>a\<close>, the
  result of three rounds.
\<close>

theorem decode_default_is_three:
  "fst (decode_iterations sample_lib (init Map.empty)) = Inr (VInt 1) \<and>
   decode_loop sample_lib 1 ''V1ZFOVBRPT0='' = Inr ''WVE9PQ=='' \<and>
   fst (decode sample_lib (init Map.empty) ''V1ZFOVBRPT0='' None) = Inr ''a''"
  by (simp add: decode_def decode_iterations_def get_int_def get_typed_value_def get_def init_def
        sample_lib_def eval_nat_numeral)

section \<open>The exported parameters\<close>

lemma requested_call_getter:
  "requested_keys cm \<subseteq> dom (params cm) \<Longrightarrow>
   requested_keys
     (snd (call_getter lib g cm key is_list is_optional is_secret is_local dflt options))
     \<subseteq> dom (params cm)"
  by (auto simp: call_getter_state split: option.splits if_splits)

lemma requested_decode_iterations:
  assumes "requested_keys cm \<subseteq> dom (params cm)"
  shows "requested_keys (snd (decode_iterations lib cm)) \<subseteq> dom (params cm)"
proof (cases "decode_iterations_cache cm")
  case None
  have "requested_keys (snd (get_int lib cm ''_POLYAXON_DECODE_ITERATION'' False True False False
                               (VInt 1) None)) \<subseteq> dom (params cm)"
    using requested_call_getter [OF assms, of lib GetInt] by simp
  with None show ?thesis
    by (auto simp: decode_iterations_def split: prod.splits sum.splits)
next
  case (Some v)
  with assms show ?thesis by (simp add: decode_iterations_def)
qed

lemma requested_run_call:
  assumes "requested_keys cm \<subseteq> dom (params cm)"
  shows "requested_keys (run_call lib cm c) \<subseteq> dom (params cm)"
proof (cases c)
  case (Call g key is_list is_optional is_secret is_local dflt options)
  then show ?thesis
    using requested_call_getter [OF assms] by simp
next
  case DecodeIterations
  then show ?thesis
    using requested_decode_iterations [OF assms] by simp
next
  case (Decode val iteration)
  then show ?thesis
    using decode_state [of lib cm val iteration] requested_decode_iterations [OF assms, of lib]
      assms
    by auto
qed

lemma requested_run_calls:
  "requested_keys cm \<subseteq> dom (params cm) \<Longrightarrow>
   requested_keys (run_calls lib cm cs) \<subseteq> dom (params cm)"
proof (induction cs arbitrary: cm)
  case Nil
  then show ?case by simp
next
  case (Cons c cs)
  from Cons.prems have "requested_keys (run_call lib cm c) \<subseteq> dom (params (run_call lib cm c))"
    using requested_run_call [of cm lib c] by (simp add: params_run_call)
  then have "requested_keys (run_calls lib (run_call lib cm c) cs)
               \<subseteq> dom (params (run_call lib cm c))"
    by (rule Cons.IH)
  then show ?case by (simp add: params_run_call)
qed

lemma requested_reachable:
  "requested_keys (run_calls lib (init ps) cs) \<subseteq> dom ps"
  using requested_run_calls [of "init ps" lib cs] by (simp add: init_def)

lemma get_requested_params_present:
  assumes "requested_keys cm \<subseteq> dom (params cm)"
  shows "get_requested_params lib cm include_secrets include_locals to_str =
     Inr (\<lambda>key. if key \<in> selected_keys cm include_secrets include_locals
                 then map_option (\<lambda>v. if to_str then VStr (py_format lib v) else v)
                        (params cm key)
                 else None)"
proof -
  have "\<not> (\<exists>key \<in> selected_keys cm include_secrets include_locals. params cm key = None)"
    using assms by (auto simp: selected_keys_def)
  then show ?thesis
    by (simp add: get_requested_params_def Let_def)
qed

lemma successful_fetch_records:
  assumes "get_typed_value cm key T conv False is_secret is_local dflt options = (Inr v, cm')"
  shows "key \<in> dom (params cm) \<and> cm' = add_key cm key is_secret is_local"
  using assms
  by (cases "params cm key")
     (auto simp: get_typed_value_def get_def Let_def split: pyval.splits sum.splits if_splits)

text \<open>
  C8. On a resolver built from raw parameters and used through any sequence of calls,
  \<open>get_requested_params\<close> returns a mapping. Its keys are the requested keys, without the
  secret ones unless \<open>include_secrets\<close> and without the local ones unless \<open>include_locals\<close>;
  each is mapped to its raw stored value, formatted as a string when \<open>to_str\<close>. In
  particular, after \<open>get_string(a, is_secret=True)\<close> and \<open>get_int(b)\<close> have succeeded on a
  fresh resolver for two different keys, the default call includes \<open>b\<close> and leaves \<open>a\<close> out,
  and the call with \<open>include_secrets\<close> includes both.
\<close>

theorem requested_params_export:
  "(\<exists>m. get_requested_params lib (run_calls lib (init ps) cs) include_secrets include_locals
           to_str = Inr m \<and>
        dom m =
          {key \<in> requested_keys (run_calls lib (init ps) cs).
             (include_secrets \<or> key \<notin> secret_keys (run_calls lib (init ps) cs)) \<and>
             (include_locals \<or> key \<notin> local_keys (run_calls lib (init ps) cs))} \<and>
        (\<forall>key v. m key = Some v \<longrightarrow>
           (\<exists>raw. ps key = Some raw \<and> v = (if to_str then VStr (py_format lib raw) else raw)))) \<and>
   (\<forall>v1 cm1 v2 cm2.
      get_string lib (init ps) a False False True False d1 o1 = (Inr v1, cm1) \<and>
      get_int lib cm1 b False False False False d2 o2 = (Inr v2, cm2) \<and> a \<noteq> b \<longrightarrow>
      (\<exists>m. get_requested_params lib cm2 False False to_str = Inr m \<and> b \<in> dom m \<and> a \<notin> dom m) \<and>
      (\<exists>m. get_requested_params lib cm2 True False to_str = Inr m \<and> b \<in> dom m \<and> a \<in> dom m))"
proof -
  let ?cm = "run_calls lib (init ps) cs"
  have inv: "requested_keys ?cm \<subseteq> dom (params ?cm)"
    using requested_reachable [of lib ps cs] by (simp add: params_run_calls init_def)
  have ps: "params ?cm = ps"
    by (simp add: params_run_calls init_def)
  have general: "\<exists>m. get_requested_params lib ?cm include_secrets include_locals to_str = Inr m \<and>
        dom m =
          {key \<in> requested_keys ?cm.
             (include_secrets \<or> key \<notin> secret_keys ?cm) \<and>
             (include_locals \<or> key \<notin> local_keys ?cm)} \<and>
        (\<forall>key v. m key = Some v \<longrightarrow>
           (\<exists>raw. ps key = Some raw \<and> v = (if to_str then VStr (py_format lib raw) else raw)))"
    using inv
    by (auto simp: get_requested_params_present [OF inv] ps selected_keys_def dom_def
          split: if_splits)
  have example:
    "(\<exists>m. get_requested_params lib cm2 False False to_str = Inr m \<and> b \<in> dom m \<and> a \<notin> dom m) \<and>
     (\<exists>m. get_requested_params lib cm2 True False to_str = Inr m \<and> b \<in> dom m \<and> a \<in> dom m)"
    if s1: "get_string lib (init ps) a False False True False d1 o1 = (Inr v1, cm1)"
    and s2: "get_int lib cm1 b False False False False d2 o2 = (Inr v2, cm2)"
    and ne: "a \<noteq> b" for v1 cm1 v2 cm2
  proof -
    from s1 have a: "a \<in> dom ps" and c1: "cm1 = add_key (init ps) a True False"
      using successful_fetch_records [of "init ps" a TStr str_convert True False d1 o1 v1 cm1]
      by (simp_all add: get_string_def init_def)
    from s2 have b: "b \<in> dom (params cm1)" and c2: "cm2 = add_key cm1 b False False"
      using successful_fetch_records
              [of cm1 b TInt "int_convert lib" False False d2 o2 v2 cm2]
      by (simp_all add: get_int_def)
    from a b c1 c2 have inv2: "requested_keys cm2 \<subseteq> dom (params cm2)"
      by (auto simp: init_def)
    have sel: "selected_keys cm2 False False = {b}" "selected_keys cm2 True False = {a, b}"
      using c1 c2 ne by (auto simp: selected_keys_def init_def)
    have pa: "params cm2 a \<noteq> None" and pb: "params cm2 b \<noteq> None"
      using a b c1 c2 by (auto simp: init_def)
    have "get_requested_params lib cm2 False False to_str =
            Inr (\<lambda>key. if key \<in> {b}
                        then map_option (\<lambda>v. if to_str then VStr (py_format lib v) else v)
                               (params cm2 key)
                        else None)"
      using get_requested_params_present [OF inv2, of lib False False to_str]
      by (simp only: sel)
    moreover have "get_requested_params lib cm2 True False to_str =
            Inr (\<lambda>key. if key \<in> {a, b}
                        then map_option (\<lambda>v. if to_str then VStr (py_format lib v) else v)
                               (params cm2 key)
                        else None)"
      using get_requested_params_present [OF inv2, of lib True False to_str]
      by (simp only: sel)
    ultimately show ?thesis
      using pa pb ne by (auto simp: dom_def)
  qed
  from general example show ?thesis
    by blast
qed

theorem requested_params_export_witness:
  "get_string sample_lib (init [''A'' \<mapsto> VStr ''s'', ''B'' \<mapsto> VStr ''42'']) ''A'' False False True
     False VNone None =
     (Inr (VStr ''s''), add_key (init [''A'' \<mapsto> VStr ''s'', ''B'' \<mapsto> VStr ''42'']) ''A'' True False) \<and>
   get_int sample_lib (add_key (init [''A'' \<mapsto> VStr ''s'', ''B'' \<mapsto> VStr ''42'']) ''A'' True False)
     ''B'' False False False False VNone None =
     (Inr (VInt 42),
      add_key (add_key (init [''A'' \<mapsto> VStr ''s'', ''B'' \<mapsto> VStr ''42'']) ''A'' True False) ''B''
        False False) \<and>
   ''A'' \<noteq> ''B'' \<and>
   (\<exists>m. get_requested_params sample_lib
          (add_key (add_key (init [''A'' \<mapsto> VStr ''s'', ''B'' \<mapsto> VStr ''42'']) ''A'' True False)
             ''B'' False False) False False False = Inr m \<and>
        ''B'' \<in> dom m \<and> ''A'' \<notin> dom m) \<and>
   (\<exists>m. get_requested_params sample_lib
          (add_key (add_key (init [''A'' \<mapsto> VStr ''s'', ''B'' \<mapsto> VStr ''42'']) ''A'' True False)
             ''B'' False False) True False False = Inr m \<and>
        ''B'' \<in> dom m \<and> ''A'' \<in> dom m)"
proof -
  let ?ps = "[''A'' \<mapsto> VStr ''s'', ''B'' \<mapsto> VStr ''42'']"
  have s1: "get_string sample_lib (init ?ps) ''A'' False False True False VNone None =
              (Inr (VStr ''s''), add_key (init ?ps) ''A'' True False)"
    by (simp add: get_string_def get_typed_value_def get_def init_def check_options_def
          str_convert_def)
  have s2: "get_int sample_lib (add_key (init ?ps) ''A'' True False) ''B'' False False False
              False VNone None =
              (Inr (VInt 42), add_key (add_key (init ?ps) ''A'' True False) ''B'' False False)"
    by (simp add: get_int_def get_typed_value_def get_def init_def check_options_def
          int_convert_def sample_lib_def)
  have ne: "''A'' \<noteq> ''B''"
    by simp
  from s1 s2 ne show ?thesis
    using requested_params_export
            [of sample_lib ?ps "[]" False False False "''A''" VNone None "''B''" VNone None]
    by blast
qed

end
